theory Spec2Isabelle
  imports Complex_Main "HOL-Library.AList" "HOL-Library.Log_Nat"
begin

section \<open>Python values used by the retrieval pipeline\<close>

text \<open>
  Exceptions of the Python code are values: a call returns \<open>Inl e\<close> where the source
  raises, and \<open>Inr v\<close> where it returns \<open>v\<close>.
\<close>

datatype py_error =
    TypeError
  | ValueError
  | KeyError
  | AttributeError
  | AssertionError
  | ImportError
  | LoadError

type_synonym 'a result = "py_error + 'a"

text \<open>Sequencing of calls that may raise: the first exception ends the computation.\<close>

definition rbind :: "'a result \<Rightarrow> ('a \<Rightarrow> 'b result) \<Rightarrow> 'b result" where
  "rbind m f = (case m of Inl e \<Rightarrow> Inl e | Inr x \<Rightarrow> f x)"

text \<open>
  Python strings are lists of characters. A character of the model is one of the first
  256 code points, so \<open>str.split\<close>, \<open>str.strip\<close> and \<open>str.lower\<close> are modelled on that
  range: the whitespace characters are those for which \<open>str.isspace\<close> holds below
  code point 256.
\<close>

definition is_space :: "char \<Rightarrow> bool" where
  "is_space c = (of_char c \<in> set [9, 10, 11, 12, 13, 28, 29, 30, 31, 32, 133, 160 :: nat])"

text \<open>\<open>text.split()\<close>: the maximal runs of non-whitespace characters, in order.\<close>

fun split_words :: "string \<Rightarrow> string \<Rightarrow> string list" where
  "split_words w [] = (if w = [] then [] else [w])"
| "split_words w (c # cs) =
     (if is_space c then (if w = [] then split_words [] cs else w # split_words [] cs)
      else split_words (w @ [c]) cs)"

definition py_split :: "string \<Rightarrow> string list" where
  "py_split s = split_words [] s"

text \<open>\<open>sep.join(words)\<close>.\<close>

fun py_join :: "string \<Rightarrow> string list \<Rightarrow> string" where
  "py_join sep [] = []"
| "py_join sep [w] = w"
| "py_join sep (w # v # ws) = w @ sep @ py_join sep (v # ws)"

text \<open>\<open>s.strip()\<close>: leading and trailing whitespace removed.\<close>

definition py_strip :: "string \<Rightarrow> string" where
  "py_strip s = rev (dropWhile is_space (rev (dropWhile is_space s)))"

text \<open>
  \<open>s.lower()\<close> on the first 256 code points: the capital letters of ASCII and of Latin-1
  move up by 32.
\<close>

definition lower_char :: "char \<Rightarrow> char" where
  "lower_char c =
     (let n = (of_char c :: nat)
      in if (65 \<le> n \<and> n \<le> 90) \<or> (192 \<le> n \<and> n \<le> 214) \<or> (216 \<le> n \<and> n \<le> 222)
         then char_of (n + 32) else c)"

definition py_lower :: "string \<Rightarrow> string" where
  "py_lower s = map lower_char s"

text \<open>\<open>sub in s\<close> and \<open>s.startswith(p)\<close> on strings.\<close>

definition startswith :: "string \<Rightarrow> string \<Rightarrow> bool" where
  "startswith s p = (take (length p) s = p)"

fun py_in :: "string \<Rightarrow> string \<Rightarrow> bool" where
  "py_in sub [] = (sub = [])"
| "py_in sub (c # cs) = (startswith (c # cs) sub \<or> py_in sub cs)"

text \<open>
  Slices \<open>xs[a:b]\<close>, \<open>xs[:b]\<close> and \<open>xs[a:]\<close> with Python's treatment of negative and
  out-of-range bounds: a negative bound counts from the end, and every bound is clamped
  to \<open>0 .. len(xs)\<close>.
\<close>

definition norm_index :: "nat \<Rightarrow> int \<Rightarrow> nat" where
  "norm_index n i = (if i < 0 then nat (int n + i) else min n (nat i))"

definition py_slice :: "'a list \<Rightarrow> int \<Rightarrow> int \<Rightarrow> 'a list" where
  "py_slice xs a b =
     (let lo = norm_index (length xs) a; hi = norm_index (length xs) b
      in take (hi - lo) (drop lo xs))"

definition py_slice_to :: "'a list \<Rightarrow> int \<Rightarrow> 'a list" where
  "py_slice_to xs b = take (norm_index (length xs) b) xs"

definition py_slice_from :: "'a list \<Rightarrow> int \<Rightarrow> 'a list" where
  "py_slice_from xs a = drop (norm_index (length xs) a) xs"

text \<open>\<open>str(i)\<close> for an integer: its decimal digits, with a minus sign when negative.\<close>

fun str_nat :: "nat \<Rightarrow> string" where
  "str_nat n =
     (if n < 10 then [''0123456789'' ! n]
      else str_nat (n div 10) @ [''0123456789'' ! (n mod 10)])"

declare str_nat.simps [simp del]

definition str_int :: "int \<Rightarrow> string" where
  "str_int i = (if i < 0 then CHR ''-'' # str_nat (nat (- i)) else str_nat (nat i))"

text \<open>\<open>x or d\<close> for an optional integer: \<open>None\<close> and \<open>0\<close> are falsy.\<close>

definition int_or :: "int option \<Rightarrow> int \<Rightarrow> int" where
  "int_or x d = (case x of None \<Rightarrow> d | Some v \<Rightarrow> if v = 0 then d else v)"

text \<open>
  Python floats are IEEE 754 binary64 numbers. A finite float is kept as the real number
  it denotes. A decimal literal such as \<open>0.3\<close> denotes the float nearest to it, and \<open>*\<close>
  and \<open>+\<close> on floats give the exact product and sum rounded to the nearest float, ties
  going to the even significand. \<open>binade x\<close> is the exponent \<open>e\<close> with
  \<open>2 ^ e \<le> |x| < 2 ^ (e + 1)\<close>, so that the floats around \<open>x\<close> are the multiples of
  \<open>2 ^ (e - 52)\<close>. Overflow, subnormal numbers, infinities and NaN are not modelled:
  the relevance scores that the arithmetic is applied to come from single-precision
  numbers, whose products with a weight below 1 and whose sums of two stay well inside
  the normal range of binary64.
\<close>

definition round_half_even :: "real \<Rightarrow> int" where
  "round_half_even x =
     (let n = \<lfloor>x\<rfloor>; r = x - of_int n
      in if r < 1 / 2 then n else if 1 / 2 < r then n + 1 else if even n then n else n + 1)"

definition pow2 :: "int \<Rightarrow> real" where
  "pow2 e = (if 0 \<le> e then 2 ^ nat e else 1 / 2 ^ nat (- e))"

definition binade :: "real \<Rightarrow> int" where
  "binade x =
     (if 1 \<le> \<bar>x\<bar> then int (floorlog 2 (nat \<lfloor>\<bar>x\<bar>\<rfloor>)) - 1
      else - int (floorlog 2 (nat (\<lceil>1 / \<bar>x\<bar>\<rceil> - 1))))"

definition float64 :: "real \<Rightarrow> real" where
  "float64 x =
     (if x = 0 then 0
      else let ulp = pow2 (binade x - 52) in of_int (round_half_even (x / ulp)) * ulp)"

definition float_mul :: "real \<Rightarrow> real \<Rightarrow> real" where
  "float_mul a b = float64 (a * b)"

definition float_add :: "real \<Rightarrow> real \<Rightarrow> real" where
  "float_add a b = float64 (a + b)"

section \<open>Settings (config/settings.py)\<close>

definition MAX_RETRIEVAL_RESULTS :: int where "MAX_RETRIEVAL_RESULTS = 20"
definition TOP_K_RERANK :: int where "TOP_K_RERANK = 5"
definition CHUNK_SIZE :: int where "CHUNK_SIZE = 512"
definition CHUNK_OVERLAP :: int where "CHUNK_OVERLAP = 50"

section \<open>Chunker (utils/document\_parser.py)\<close>

text \<open>The dictionary that the chunker emits for one chunk; \<open>ctext\<close> is its key \<open>text\<close>.\<close>

record chunk =
  chunk_index :: int
  ctext :: string
  word_count :: int
  char_count :: int

text \<open>
  The body of the loop of \<open>_simple_chunking\<close> for the window that starts at word \<open>i\<close>:
  \<open>words[i:i + chunk_size]\<close>, joined by single spaces.
\<close>

definition simple_chunk :: "string list \<Rightarrow> int \<Rightarrow> int \<Rightarrow> int \<Rightarrow> chunk" where
  "simple_chunk words chunk_size i idx =
     (let chunk_words = py_slice words i (i + chunk_size);
          chunk_text = py_join '' '' chunk_words
      in \<lparr>chunk_index = idx, ctext = chunk_text,
          word_count = int (length chunk_words), char_count = int (length chunk_text)\<rparr>)"

text \<open>
  \<open>for i in range(0, len(words), step)\<close> with a positive step, the chunk index counted
  alongside. A step that is not positive never enters this loop (see \<open>simple_chunking\<close>).
\<close>

function simple_loop :: "string list \<Rightarrow> int \<Rightarrow> int \<Rightarrow> int \<Rightarrow> int \<Rightarrow> chunk list" where
  "simple_loop words chunk_size step i idx =
     (if 0 < step \<and> i < int (length words)
      then simple_chunk words chunk_size i idx
             # simple_loop words chunk_size step (i + step) (idx + 1)
      else [])"
  by pat_completeness auto
termination
  by (relation "measure (\<lambda>(words, chunk_size, step, i, idx). nat (int (length words) - i))") auto

text \<open>
  \<open>_simple_chunking\<close>. \<open>range(0, n, step)\<close> raises \<open>ValueError\<close> for a zero step and is
  empty for a negative step (its start 0 is not above its stop \<open>n \<ge> 0\<close>).
\<close>

definition simple_chunking :: "string \<Rightarrow> int \<Rightarrow> int \<Rightarrow> chunk list result" where
  "simple_chunking txt chunk_size overlap =
     (let words = py_split txt; step = chunk_size - overlap
      in if step = 0 then Inl ValueError
         else if step < 0 then Inr []
         else Inr (simple_loop words chunk_size step 0 0))"

text \<open>\<open>_get_overlap_text\<close>: the last \<open>overlap_words\<close> words of a text.\<close>

definition get_overlap_text :: "string \<Rightarrow> int \<Rightarrow> string" where
  "get_overlap_text txt overlap_words =
     (let words = py_split txt
      in if int (length words) \<le> overlap_words then txt
         else py_join '' '' (py_slice_from words (- overlap_words)))"

text \<open>
  \<open>_intelligent_chunking\<close>. The sentence segmentation is spaCy's; the loop below runs
  over the stripped sentences it produced. The state of the loop is the chunk under
  construction, its size in words and the next chunk index.
\<close>

fun intelligent_loop ::
  "int \<Rightarrow> int \<Rightarrow> string list \<Rightarrow> string \<Rightarrow> int \<Rightarrow> int \<Rightarrow> chunk list" where
  "intelligent_loop chunk_size overlap [] current_chunk current_size idx =
     (if py_strip current_chunk \<noteq> []
      then [\<lparr>chunk_index = idx, ctext = py_strip current_chunk,
             word_count = current_size, char_count = int (length current_chunk)\<rparr>]
      else [])"
| "intelligent_loop chunk_size overlap (sentence # sentences) current_chunk current_size idx =
     (let sentence_length = int (length (py_split sentence))
      in if current_size + sentence_length > chunk_size \<and> current_chunk \<noteq> []
         then \<lparr>chunk_index = idx, ctext = py_strip current_chunk,
                word_count = current_size, char_count = int (length current_chunk)\<rparr>
              # (let next_chunk = get_overlap_text current_chunk overlap @ '' '' @ sentence
                 in intelligent_loop chunk_size overlap sentences next_chunk
                      (int (length (py_split next_chunk))) (idx + 1))
         else intelligent_loop chunk_size overlap sentences
                (current_chunk @ '' '' @ sentence) (current_size + sentence_length) idx)"

definition intelligent_chunking ::
  "(string \<Rightarrow> string list) \<Rightarrow> string \<Rightarrow> int \<Rightarrow> int \<Rightarrow> chunk list" where
  "intelligent_chunking nlp txt chunk_size overlap =
     intelligent_loop chunk_size overlap (map py_strip (nlp txt)) [] 0 0"

text \<open>
  \<open>chunk_text\<close>. \<open>nlp\<close> is the sentence segmenter when the spaCy model was loaded and
  \<open>None\<close> otherwise; an absent or zero \<open>chunk_size\<close> or \<open>overlap\<close> takes the setting.
\<close>

definition chunk_text ::
  "(string \<Rightarrow> string list) option \<Rightarrow> string \<Rightarrow> int option \<Rightarrow> int option \<Rightarrow> chunk list result" where
  "chunk_text nlp txt chunk_size overlap =
     (let cs = int_or chunk_size CHUNK_SIZE; ov = int_or overlap CHUNK_OVERLAP
      in case nlp of
           Some segment \<Rightarrow> Inr (intelligent_chunking segment txt cs ov)
         | None \<Rightarrow> simple_chunking txt cs ov)"

text \<open>
  The windows that the word strategy is meant to produce, stated on the word sequence:
  window \<open>k\<close> holds the \<open>wsz\<close> words from word \<open>k * stride\<close> on, there are
  \<open>\<lceil>n / stride\<rceil>\<close> windows over \<open>n\<close> words, and window \<open>k\<close> becomes chunk \<open>k\<close>.
\<close>

definition window :: "'a list \<Rightarrow> nat \<Rightarrow> nat \<Rightarrow> nat \<Rightarrow> 'a list" where
  "window ws wsz stride k = take wsz (drop (k * stride) ws)"

definition window_count :: "nat \<Rightarrow> nat \<Rightarrow> nat" where
  "window_count n stride = (n + stride - 1) div stride"

definition word_chunk :: "nat \<Rightarrow> string list \<Rightarrow> chunk" where
  "word_chunk k ws =
     \<lparr>chunk_index = int k, ctext = py_join '' '' ws,
      word_count = int (length ws), char_count = int (length (py_join '' '' ws))\<rparr>"

section \<open>Vector index and retriever (core/embedding\_service.py)\<close>

text \<open>
  Embeddings are vectors of reals (the floating point numbers of the source are read as
  the reals they stand for), compared by inner product. The inner product is taken
  exactly: the rounding of the single-precision sums inside the numeric libraries is
  not modelled.
\<close>

type_synonym vec = "real list"

definition dot :: "vec \<Rightarrow> vec \<Rightarrow> real" where
  "dot u v = sum_list (map2 (*) u v)"

text \<open>
  The metadata dictionary kept for one slot of the index, which is also the shape of a
  search result. \<open>ci_chunk_index\<close> and \<open>ci_text\<close> are its keys \<open>chunk_index\<close> and
  \<open>text\<close>. The keys \<open>deleted\<close>, \<open>similarity_score\<close>, \<open>cross_encoder_score\<close> and
  \<open>combined_score\<close> are added by later calls: \<open>None\<close> is an absent key.
\<close>

record chunk_info =
  chunk_id :: string
  document_id :: string
  ci_chunk_index :: int
  ci_text :: string
  metadata :: chunk
  deleted :: "bool option"
  similarity_score :: "real option"
  cross_encoder_score :: "real option"
  combined_score :: "real option"

text \<open>
  A file of the persisted index: absent, present but unreadable (its deserialisation
  raises), or present with the content that was stored.
\<close>

datatype 'a stored_file = Missing | Corrupt | Stored 'a

text \<open>
  What the embedding service finds outside itself: whether the sentence-embedding model
  can be constructed (and then the function it computes from a text to its normalised
  embedding), the two files of the persisted index, and the outcome of \<open>int(k)\<close> on a key
  of the metadata file (\<open>None\<close> when it raises). The metadata file holds a JSON object:
  its keys are strings, in the order of the file.
\<close>

record embedding_env =
  load_embedding_model :: "(string \<Rightarrow> vec) result"
  faiss_file :: "vec list stored_file"
  metadata_file :: "(string \<times> chunk_info) list stored_file"
  py_int :: "string \<Rightarrow> int option"

text \<open>
  The state of \<open>EmbeddingService\<close>. The FAISS index is the list of the vectors added to
  it, in order: the position of a vector is the label that a search returns for it.
  \<open>document_chunks\<close> is a Python dictionary with integer keys, kept as an association
  list in insertion order with distinct keys.
\<close>

record embedding_service =
  model :: "(string \<Rightarrow> vec) option"
  index :: "vec list option"
  document_chunks :: "(int \<times> chunk_info) list"
  is_initialized :: bool

text \<open>\<open>EmbeddingService.__init__\<close>.\<close>

definition new_embedding_service :: embedding_service where
  "new_embedding_service =
     \<lparr>model = None, index = None, document_chunks = [], is_initialized = False\<rparr>"

text \<open>
  The dictionary comprehension \<open>{int(k): v for k, v in d.items()}\<close>: it raises at the
  first key that is not an integer, and a later entry replaces an earlier one with the
  same integer key.
\<close>

fun int_keys ::
  "(string \<Rightarrow> int option) \<Rightarrow> (string \<times> chunk_info) list \<Rightarrow> (int \<times> chunk_info) list
     \<Rightarrow> (int \<times> chunk_info) list result" where
  "int_keys conv [] acc = Inr acc"
| "int_keys conv ((k, v) # kvs) acc =
     (case conv k of
        None \<Rightarrow> Inl ValueError
      | Some i \<Rightarrow> int_keys conv kvs (AList.update i v acc))"

text \<open>
  The body of the \<open>try\<close> block of \<open>_load_index\<close>. The index is assigned as soon as it
  is read, before the metadata is opened.
\<close>

definition load_index_try :: "embedding_env \<Rightarrow> embedding_service \<Rightarrow> embedding_service result" where
  "load_index_try env st =
     (if faiss_file env \<noteq> Missing \<and> metadata_file env \<noteq> Missing
      then (case faiss_file env of
              Stored vectors \<Rightarrow>
                (case metadata_file env of
                   Stored entries \<Rightarrow>
                     rbind (int_keys (py_int env) entries [])
                       (\<lambda>chunks. Inr (st\<lparr>index := Some vectors, document_chunks := chunks\<rparr>))
                 | _ \<Rightarrow> Inl LoadError)
            | _ \<Rightarrow> Inl LoadError)
      else Inr st)"

text \<open>
  \<open>_load_index\<close>: any exception of the \<open>try\<close> block is caught, and the handler starts
  from a fresh index and an empty dictionary.
\<close>

definition load_index :: "embedding_env \<Rightarrow> embedding_service \<Rightarrow> embedding_service" where
  "load_index env st =
     (case load_index_try env st of
        Inr st' \<Rightarrow> st'
      | Inl e \<Rightarrow> st\<lparr>index := Some [], document_chunks := []\<rparr>)"

text \<open>
  \<open>EmbeddingService.initialize\<close>. Constructing the model is not guarded: when it
  raises, the exception leaves \<open>initialize\<close> and the state is as before.
\<close>

definition initialize :: "embedding_env \<Rightarrow> embedding_service \<Rightarrow> embedding_service result" where
  "initialize env st =
     (if is_initialized st then Inr st
      else rbind (load_embedding_model env)
             (\<lambda>m. Inr ((load_index env (st\<lparr>model := Some m, index := Some []\<rparr>))
                          \<lparr>is_initialized := True\<rparr>)))"

text \<open>\<open>self.model.encode\<close> and the methods of \<open>self.index\<close> need the attribute to be set.\<close>

definition the_attr :: "'a option \<Rightarrow> 'a result" where
  "the_attr x = (case x of None \<Rightarrow> Inl AttributeError | Some v \<Rightarrow> Inr v)"

text \<open>
  The loop of \<open>add_documents\<close> over the chunks: the metadata of each chunk is stored
  under the key \<open>len(self.document_chunks)\<close>.
\<close>

definition chunk_entry :: "string \<Rightarrow> chunk \<Rightarrow> chunk_info" where
  "chunk_entry doc c =
     \<lparr>chunk_id = doc @ ''_'' @ str_int (chunk_index c), document_id = doc,
      ci_chunk_index = chunk_index c, ci_text = ctext c, metadata = c,
      deleted = None, similarity_score = None, cross_encoder_score = None,
      combined_score = None\<rparr>"

fun store_chunks ::
  "string \<Rightarrow> chunk list \<Rightarrow> (int \<times> chunk_info) list \<Rightarrow> (int \<times> chunk_info) list" where
  "store_chunks doc [] dc = dc"
| "store_chunks doc (c # cs) dc =
     store_chunks doc cs (AList.update (int (length dc)) (chunk_entry doc c) dc)"

text \<open>
  \<open>add_documents\<close>: returns the chunk ids. The embeddings of the texts are appended to
  the index after the metadata has been stored.
\<close>

definition add_documents ::
  "embedding_env \<Rightarrow> embedding_service \<Rightarrow> string \<Rightarrow> chunk list
     \<Rightarrow> (string list \<times> embedding_service) result" where
  "add_documents env st doc chunks =
     rbind (initialize env st) (\<lambda>st1.
       let chunk_ids = map (\<lambda>c. doc @ ''_'' @ str_int (chunk_index c)) chunks;
           texts = map ctext chunks;
           st2 = st1\<lparr>document_chunks := store_chunks doc chunks (document_chunks st1)\<rparr>
       in rbind (the_attr (model st2)) (\<lambda>encode.
          rbind (the_attr (index st2)) (\<lambda>vectors.
            Inr (chunk_ids, st2\<lparr>index := Some (vectors @ map encode texts)\<rparr>))))"

text \<open>
  \<open>faiss.IndexFlatIP.search\<close> for one query: the \<open>k\<close> stored vectors of greatest inner
  product with the query, best first, as pairs of score and label; when the index holds
  fewer than \<open>k\<close> vectors the result is padded to length \<open>k\<close> with the label \<open>-1\<close>. The
  library asserts \<open>k > 0\<close>.
\<close>

definition no_score :: real where
  "no_score = - 340282346638528859811704183484516925440"

definition flat_ip_search :: "vec list \<Rightarrow> vec \<Rightarrow> int \<Rightarrow> (real \<times> int) list result" where
  "flat_ip_search vectors q k =
     (if k \<le> 0 then Inl AssertionError
      else let scored = map (\<lambda>i. (dot q (vectors ! i), int i)) [0..<length vectors];
               best = take (nat k) (sort_key (\<lambda>hit. - fst hit) scored)
           in Inr (best @ replicate (nat k - length best) (no_score, - 1)))"

text \<open>\<open>d[key]\<close> on the dictionary of chunk metadata.\<close>

definition dict_get :: "(int \<times> chunk_info) list \<Rightarrow> int \<Rightarrow> chunk_info result" where
  "dict_get dc key = (case map_of dc key of None \<Rightarrow> Inl KeyError | Some v \<Rightarrow> Inr v)"

text \<open>
  The loop of \<open>search\<close> over the hits: a hit whose label is a valid position below
  \<open>len(self.document_chunks)\<close> yields a copy of the metadata stored under that key, with
  the score added. Nothing else about the metadata is looked at.
\<close>

fun collect_results :: "(int \<times> chunk_info) list \<Rightarrow> (real \<times> int) list \<Rightarrow> chunk_info list result" where
  "collect_results dc [] = Inr []"
| "collect_results dc ((score, idx) # hits) =
     (if 0 \<le> idx \<and> idx < int (length dc)
      then rbind (dict_get dc idx) (\<lambda>chunk_info.
             rbind (collect_results dc hits) (\<lambda>results.
               Inr (chunk_info\<lparr>similarity_score := Some score\<rparr> # results)))
      else collect_results dc hits)"

text \<open>\<open>search\<close>; an absent or zero \<open>top_k\<close> takes \<open>MAX_RETRIEVAL_RESULTS\<close>.\<close>

definition search ::
  "embedding_env \<Rightarrow> embedding_service \<Rightarrow> string \<Rightarrow> int option
     \<Rightarrow> (chunk_info list \<times> embedding_service) result" where
  "search env st query top_k =
     rbind (initialize env st) (\<lambda>st1.
       let k = int_or top_k MAX_RETRIEVAL_RESULTS
       in rbind (the_attr (model st1)) (\<lambda>encode.
          rbind (the_attr (index st1)) (\<lambda>vectors.
          rbind (flat_ip_search vectors (encode query) k) (\<lambda>hits.
          rbind (collect_results (document_chunks st1) hits) (\<lambda>results.
            Inr (results, st1))))))"

text \<open>\<open>top_k * 2\<close>: multiplying \<open>None\<close> raises \<open>TypeError\<close>.\<close>

definition times2 :: "int option \<Rightarrow> int result" where
  "times2 top_k = (case top_k of None \<Rightarrow> Inl TypeError | Some k \<Rightarrow> Inr (k * 2))"

text \<open>\<open>search_by_document\<close>.\<close>

definition search_by_document ::
  "embedding_env \<Rightarrow> embedding_service \<Rightarrow> string \<Rightarrow> string \<Rightarrow> int option
     \<Rightarrow> (chunk_info list \<times> embedding_service) result" where
  "search_by_document env st query doc top_k =
     rbind (initialize env st) (\<lambda>st1.
     rbind (times2 top_k) (\<lambda>k2.
     rbind (search env st1 query (Some k2)) (\<lambda>(all_results, st2).
       let document_results = filter (\<lambda>r. document_id r = doc) all_results
       in Inr (py_slice_to document_results (int_or top_k MAX_RETRIEVAL_RESULTS), st2))))"

text \<open>
  \<open>remove_document\<close>: the entries of the document are marked in the metadata; the
  index itself is not touched.
\<close>

definition remove_document :: "embedding_service \<Rightarrow> string \<Rightarrow> embedding_service" where
  "remove_document st doc =
     st\<lparr>document_chunks :=
          map (\<lambda>(idx, chunk_info).
                 (idx, if document_id chunk_info = doc
                       then chunk_info\<lparr>deleted := Some True\<rparr> else chunk_info))
              (document_chunks st)\<rparr>"

text \<open>
  \<open>chunk.get('deleted', False)\<close>, and the count \<open>active_chunks\<close> that \<open>get_stats\<close>
  reports: the entries that are not marked as deleted.
\<close>

definition is_deleted :: "chunk_info \<Rightarrow> bool" where
  "is_deleted c = (case deleted c of None \<Rightarrow> False | Some b \<Rightarrow> b)"

definition active_chunks :: "embedding_service \<Rightarrow> nat" where
  "active_chunks st = length (filter (\<lambda>c. \<not> is_deleted c) (map snd (document_chunks st)))"

text \<open>
  The slot ids of the index are the keys of \<open>document_chunks\<close>, in insertion order.
  They are dense when they are \<open>0, 1, \<dots>, n - 1\<close> in this order. A service is ready once
  it is initialised, with its model and index set.
\<close>

definition slots :: "embedding_service \<Rightarrow> int list" where
  "slots st = map fst (document_chunks st)"

definition dense :: "int list \<Rightarrow> bool" where
  "dense ks = (ks = map int [0..<length ks])"

definition ready :: "embedding_service \<Rightarrow> bool" where
  "ready st = (is_initialized st \<and> model st \<noteq> None \<and> index st \<noteq> None)"

text \<open>
  A sequence of calls that change the index, run one after the other on the shared
  service. A call to \<open>add_documents\<close> that raises leaves the sequence with the state it
  started from (on a ready service it does not raise).
\<close>

datatype index_call = AddDocuments string "chunk list" | RemoveDocument string

fun run_call :: "embedding_env \<Rightarrow> embedding_service \<Rightarrow> index_call \<Rightarrow> embedding_service" where
  "run_call env st (AddDocuments doc chunks) =
     (case add_documents env st doc chunks of Inr (chunk_ids, st') \<Rightarrow> st' | Inl e \<Rightarrow> st)"
| "run_call env st (RemoveDocument doc) = remove_document st doc"

definition run_calls ::
  "embedding_env \<Rightarrow> embedding_service \<Rightarrow> index_call list \<Rightarrow> embedding_service" where
  "run_calls env st calls = foldl (run_call env) st calls"

text \<open>The number of slots that a call asks for.\<close>

fun added :: "index_call \<Rightarrow> nat" where
  "added (AddDocuments doc chunks) = length chunks"
| "added (RemoveDocument doc) = 0"

text \<open>An entry of the slot table, its deletion mark set aside.\<close>

definition unmarked :: "int \<times> chunk_info \<Rightarrow> int \<times> chunk_info" where
  "unmarked e = (fst e, (snd e)\<lparr>deleted := None\<rparr>)"

text \<open>
  The persisted store cannot be restored when one of its two files is missing or
  unreadable, or when a key of the metadata is not an integer. \<open>fresh\<close> is the state
  with an empty, newly made index and no chunk metadata.
\<close>

definition index_unreadable :: "embedding_env \<Rightarrow> bool" where
  "index_unreadable env = (case faiss_file env of Stored vectors \<Rightarrow> False | _ \<Rightarrow> True)"

definition metadata_unreadable :: "embedding_env \<Rightarrow> bool" where
  "metadata_unreadable env =
     (case metadata_file env of
        Stored entries \<Rightarrow> isl (int_keys (py_int env) entries [])
      | _ \<Rightarrow> True)"

definition store_unusable :: "embedding_env \<Rightarrow> bool" where
  "store_unusable env = (index_unreadable env \<or> metadata_unreadable env)"

definition fresh :: "embedding_service \<Rightarrow> embedding_service" where
  "fresh st = st\<lparr>index := Some [], document_chunks := []\<rparr>"

text \<open>
  A small instance for concrete runs: an embedding model that sends \<open>alpha\<close> and \<open>beta\<close>
  to the two unit vectors of the plane and every other text to \<open>(3/5, 4/5)\<close>, no
  persisted index, and an index that holds one chunk of document \<open>d1\<close> and one of
  document \<open>d2\<close>.
\<close>

definition demo_encode :: "string \<Rightarrow> vec" where
  "demo_encode s =
     (if s = ''alpha'' then [1, 0] else if s = ''beta'' then [0, 1] else [3 / 5, 4 / 5])"

definition demo_env :: embedding_env where
  "demo_env = \<lparr>load_embedding_model = Inr demo_encode, faiss_file = Missing,
                metadata_file = Missing, py_int = (\<lambda>s. None)\<rparr>"

definition corrupt_env :: embedding_env where
  "corrupt_env = \<lparr>load_embedding_model = Inr demo_encode, faiss_file = Stored [[1, 0]],
                   metadata_file = Corrupt, py_int = (\<lambda>s. None)\<rparr>"

definition alpha_chunk :: chunk where
  "alpha_chunk = \<lparr>chunk_index = 0, ctext = ''alpha'', word_count = 1, char_count = 5\<rparr>"

definition beta_chunk :: chunk where
  "beta_chunk = \<lparr>chunk_index = 0, ctext = ''beta'', word_count = 1, char_count = 4\<rparr>"

definition demo_service :: embedding_service where
  "demo_service =
     run_calls demo_env new_embedding_service
       [AddDocuments ''d1'' [alpha_chunk], AddDocuments ''d2'' [beta_chunk]]"

text \<open>The service of the instance right after its initialisation.\<close>

definition demo_ready :: embedding_service where
  "demo_ready = \<lparr>model = Some demo_encode, index = Some [], document_chunks = [],
                 is_initialized = True\<rparr>"

section \<open>Reranker (core/reranking\_service.py)\<close>

text \<open>
  The model of the reranker, together with its \<open>model_type\<close>: a cross-encoder scores a
  pair of query and document text directly, a bi-encoder embeds texts, and the score of
  a pair is then the inner product of the two embeddings.
\<close>

datatype rerank_model =
    CrossEncoder "string \<Rightarrow> string \<Rightarrow> real"
  | BiEncoder "string \<Rightarrow> vec"

text \<open>
  What \<open>RerankingService.initialize\<close> finds: the outcome of importing and constructing
  the cross-encoder, and of constructing the sentence transformer that replaces it.
\<close>

record reranking_env =
  load_cross_encoder :: "(string \<Rightarrow> string \<Rightarrow> real) result"
  load_bi_encoder :: "(string \<Rightarrow> vec) result"

record reranking_service =
  rr_model :: "rerank_model option"
  rr_is_initialized :: bool

definition new_reranking_service :: reranking_service where
  "new_reranking_service = \<lparr>rr_model = None, rr_is_initialized = False\<rparr>"

text \<open>
  \<open>RerankingService.initialize\<close>: only an \<open>ImportError\<close> leads to the bi-encoder; any
  other exception leaves \<open>initialize\<close>.
\<close>

definition rr_initialize :: "reranking_env \<Rightarrow> reranking_service \<Rightarrow> reranking_service result" where
  "rr_initialize env st =
     (if rr_is_initialized st then Inr st
      else case load_cross_encoder env of
             Inr score \<Rightarrow> Inr (st\<lparr>rr_model := Some (CrossEncoder score), rr_is_initialized := True\<rparr>)
           | Inl e \<Rightarrow>
               if e = ImportError
               then rbind (load_bi_encoder env)
                      (\<lambda>encode. Inr (st\<lparr>rr_model := Some (BiEncoder encode),
                                         rr_is_initialized := True\<rparr>))
               else Inl e)"

text \<open>\<open>result.get('similarity_score', 0.0)\<close>.\<close>

definition similarity_or_zero :: "chunk_info \<Rightarrow> real" where
  "similarity_or_zero r = (case similarity_score r of None \<Rightarrow> 0 | Some s \<Rightarrow> s)"

text \<open>
  The body of the two scoring loops: the score of the model is stored under
  \<open>cross_encoder_score\<close> and the weighted sum under \<open>combined_score\<close>. The sum is float
  arithmetic: each of the two products is rounded, and then their sum.
\<close>

definition with_scores :: "real \<Rightarrow> real \<Rightarrow> real \<Rightarrow> chunk_info \<Rightarrow> chunk_info" where
  "with_scores w_similarity w_model s r =
     r\<lparr>cross_encoder_score := Some s,
       combined_score :=
         Some (float_add (float_mul w_similarity (similarity_or_zero r)) (float_mul w_model s))\<rparr>"

text \<open>
  The score of the model for one candidate, \<open>float(cross_encoder_scores[i])\<close> and
  \<open>float(similarities[i])\<close>: the conversion of a single-precision number to a float is
  exact. The weights of the two loops are the literals \<open>0.3\<close>, \<open>0.7\<close> and \<open>0.5\<close>.
\<close>

definition model_score :: "rerank_model \<Rightarrow> string \<Rightarrow> chunk_info \<Rightarrow> real" where
  "model_score m query r =
     (case m of
        CrossEncoder score \<Rightarrow> score query (ci_text r)
      | BiEncoder encode \<Rightarrow> dot (encode query) (encode (ci_text r)))"

definition score_results :: "rerank_model \<Rightarrow> string \<Rightarrow> chunk_info list \<Rightarrow> chunk_info list" where
  "score_results m query search_results =
     (case m of
        CrossEncoder score \<Rightarrow>
          map (\<lambda>r. with_scores (float64 (3 / 10)) (float64 (7 / 10)) (model_score m query r) r)
            search_results
      | BiEncoder encode \<Rightarrow>
          map (\<lambda>r. with_scores (float64 (5 / 10)) (float64 (5 / 10)) (model_score m query r) r)
            search_results)"

text \<open>
  The key of the final sort, \<open>x['combined_score']\<close>; the key is present on every element
  that is sorted, since the loop before has just stored it.
\<close>

definition combined :: "chunk_info \<Rightarrow> real" where
  "combined r = (case combined_score r of None \<Rightarrow> 0 | Some c \<Rightarrow> c)"

text \<open>
  \<open>sorted(xs, key=..., reverse=True)\<close>: Python's sort is stable, and with
  \<open>reverse=True\<close> elements with equal keys keep their order, so it is the stable
  ascending sort on the negated key.
\<close>

definition sorted_by_combined_desc :: "chunk_info list \<Rightarrow> chunk_info list" where
  "sorted_by_combined_desc xs = sort_key (\<lambda>r. - combined r) xs"

text \<open>
  \<open>rerank_results\<close>. The service is initialised before the empty candidate list is
  looked at; an absent or zero \<open>top_k\<close> takes \<open>TOP_K_RERANK\<close>.
\<close>

definition rerank_results ::
  "reranking_env \<Rightarrow> reranking_service \<Rightarrow> string \<Rightarrow> chunk_info list \<Rightarrow> int option
     \<Rightarrow> (chunk_info list \<times> reranking_service) result" where
  "rerank_results env st query search_results top_k =
     rbind (rr_initialize env st) (\<lambda>st1.
       if search_results = [] then Inr ([], st1)
       else let k = int_or top_k TOP_K_RERANK
            in rbind (the_attr (rr_model st1)) (\<lambda>m.
                 let reranked_results = sorted_by_combined_desc (score_results m query search_results)
                 in Inr (py_slice_to reranked_results k, st1)))"

text \<open>
  An instance of the reranker: a cross-encoder that scores the text \<open>alpha\<close> with the
  float \<open>0.6\<close> and every other text with the float \<open>0.2\<close>, and candidates with given
  similarity scores.
\<close>

definition demo_score :: "string \<Rightarrow> string \<Rightarrow> real" where
  "demo_score query t = (if t = ''alpha'' then float64 (6 / 10) else float64 (2 / 10))"

definition demo_rr_env :: reranking_env where
  "demo_rr_env = \<lparr>load_cross_encoder = Inr demo_score, load_bi_encoder = Inl LoadError\<rparr>"

definition demo_cross_encoder :: reranking_service where
  "demo_cross_encoder = \<lparr>rr_model = Some (CrossEncoder demo_score), rr_is_initialized = True\<rparr>"

definition candidate :: "string \<Rightarrow> string \<Rightarrow> real \<Rightarrow> chunk_info" where
  "candidate doc t s =
     (chunk_entry doc \<lparr>chunk_index = 0, ctext = t, word_count = 1, char_count = int (length t)\<rparr>)
       \<lparr>similarity_score := Some s\<rparr>"

definition tie_candidates :: "chunk_info list" where
  "tie_candidates =
     [candidate ''d1'' ''beta'' (float64 (3 / 10)), candidate ''d2'' ''alpha'' (float64 (2 / 10)),
      candidate ''d3'' ''beta'' (float64 (3 / 10)), candidate ''d4'' ''beta'' (float64 (9 / 10))]"

section \<open>Answer generation (core/llm\_service.py)\<close>

text \<open>
  The dictionary that \<open>_rule_based_extraction\<close> builds (\<open>sq_keywords\<close> is its key
  \<open>keywords\<close>), and the dictionary that \<open>generate_answer\<close> returns. The latter may come
  from the JSON text of the language model, so each of its keys may be absent (\<open>None\<close>);
  \<open>ans_token_usage\<close> is the \<open>total_tokens\<close> entry of its key \<open>token_usage\<close>.
\<close>

record structured_query =
  intent :: string
  subject :: string
  sq_keywords :: "string list"
  question_type :: string
  entities :: "string list"
  context_clues :: "string list"

record answer_data =
  ans_answer :: "string option"
  ans_decision :: "string option"
  ans_confidence :: "real option"
  ans_reasoning :: "string option"
  ans_supporting_evidence :: "string list option"
  ans_conflicting_evidence :: "string list option"
  ans_key_factors :: "string list option"
  ans_limitations :: "string list option"
  ans_token_usage :: "int option"

text \<open>
  The text-generation pipeline, seen through the two prompts the service sends: for the
  prompt built from a query and a domain, and for the prompt built from a query, the
  chunks and a domain, what the \<open>try\<close> block obtains from the generated text. \<open>Inl\<close>: a
  step of the block raises (the pipeline, the tokenizer or \<open>json.loads\<close>); \<open>Inr None\<close>:
  the text holds no JSON object; \<open>Inr (Some d)\<close>: the object that was parsed, for the
  answer with its \<open>token_usage\<close> already set.
\<close>

record llm_pipeline =
  generated_query :: "string \<Rightarrow> string option \<Rightarrow> structured_query option result"
  generated_answer :: "string \<Rightarrow> chunk_info list \<Rightarrow> string option \<Rightarrow> answer_data option result"

text \<open>
  What \<open>LLMService.initialize\<close> finds: the outcome of loading the tokenizer, which is
  not guarded, and of loading the model and building the pipeline, which is.
\<close>

record llm_env =
  load_tokenizer :: "unit result"
  load_pipeline :: "llm_pipeline result"

record llm_service =
  pipeline :: "llm_pipeline option"
  llm_is_initialized :: bool

definition new_llm_service :: llm_service where
  "new_llm_service = \<lparr>pipeline = None, llm_is_initialized = False\<rparr>"

text \<open>
  \<open>LLMService.initialize\<close>: a failure to load the model is caught and leaves the
  service initialised without a pipeline.
\<close>

definition llm_initialize :: "llm_env \<Rightarrow> llm_service \<Rightarrow> llm_service result" where
  "llm_initialize env st =
     (if llm_is_initialized st then Inr st
      else rbind (load_tokenizer env) (\<lambda>tokenizer.
             Inr (st\<lparr>pipeline := (case load_pipeline env of Inr p \<Rightarrow> Some p | Inl e \<Rightarrow> None),
                      llm_is_initialized := True\<rparr>)))"

text \<open>\<open>_rule_based_extraction\<close>.\<close>

definition rule_based_extraction :: "string \<Rightarrow> string option \<Rightarrow> structured_query" where
  "rule_based_extraction query domain =
     (let query_lower = py_lower query;
          intent =
            (if list_ex (\<lambda>w. py_in w query_lower) [''cover'', ''covered'', ''coverage'']
             then ''coverage_check''
             else if list_ex (\<lambda>w. py_in w query_lower) [''exclude'', ''excluded'', ''exclusion'']
             then ''exclusion_check''
             else if list_ex (\<lambda>w. py_in w query_lower)
                       [''condition'', ''requirement'', ''prerequisite'']
             then ''condition_check''
             else ''general_inquiry'');
          question_type =
            (if list_ex (startswith query_lower) [''does'', ''is'', ''can'', ''will'', ''would'']
             then ''yes_no''
             else if list_ex (\<lambda>w. py_in w query_lower) [''if'', ''when'', ''under what'']
             then ''conditional''
             else ''explanatory'');
          found_keywords =
            filter (\<lambda>w. 3 < length w \<and>
                       py_lower w \<notin> set [''does'', ''this'', ''what'', ''are'', ''the'',
                                          ''conditions'', ''coverage'', ''policy''])
              (py_split query)
      in \<lparr>intent = intent,
          subject = (if 50 < length query then py_slice_to query 50 @ ''...'' else query),
          sq_keywords = py_slice_to found_keywords 10,
          question_type = question_type,
          entities = [],
          context_clues = (case domain of None \<Rightarrow> [] | Some d \<Rightarrow> if d = [] then [] else [d])\<rparr>)"

text \<open>
  \<open>extract_structured_query\<close>: every exception after the initialisation is caught and
  answered by the rule-based extraction.
\<close>

definition extract_structured_query ::
  "llm_env \<Rightarrow> llm_service \<Rightarrow> string \<Rightarrow> string option \<Rightarrow> (structured_query \<times> llm_service) result" where
  "extract_structured_query env st natural_query domain =
     rbind (llm_initialize env st) (\<lambda>st1.
       Inr (case pipeline st1 of
              None \<Rightarrow> rule_based_extraction natural_query domain
            | Some p \<Rightarrow>
                (case generated_query p natural_query domain of
                   Inr (Some parsed) \<Rightarrow> parsed
                 | _ \<Rightarrow> rule_based_extraction natural_query domain),
            st1))"

text \<open>\<open>best_chunk.get('combined_score', 0.5)\<close>.\<close>

definition combined_or_half :: "chunk_info \<Rightarrow> real" where
  "combined_or_half r = (case combined_score r of None \<Rightarrow> float64 (5 / 10) | Some c \<Rightarrow> c)"

text \<open>\<open>_rule_based_answer_generation\<close>.\<close>

definition rule_based_answer_generation ::
  "string \<Rightarrow> chunk_info list \<Rightarrow> string option \<Rightarrow> answer_data" where
  "rule_based_answer_generation query relevant_chunks domain =
     (case relevant_chunks of
        [] \<Rightarrow>
          \<lparr>ans_answer = Some ''I couldn't find relevant information to answer your question.'',
           ans_decision = Some ''Unclear'',
           ans_confidence = Some (float64 (1 / 10)),
           ans_reasoning = Some ''No relevant document excerpts found for the query.'',
           ans_supporting_evidence = Some [],
           ans_conflicting_evidence = Some [],
           ans_key_factors = Some [''Insufficient information''],
           ans_limitations = Some [''No relevant documents found''],
           ans_token_usage = Some 0\<rparr>
      | best_chunk # others \<Rightarrow>
          (let query_lower = py_lower query;
               chunk_text_lower = py_lower (ci_text best_chunk);
               confidence = combined_or_half best_chunk;
               decision =
                 (if py_in ''cover'' query_lower
                  then (if list_ex (\<lambda>w. py_in w chunk_text_lower)
                             [''covered'', ''includes'', ''benefits'']
                        then ''Yes''
                        else if list_ex (\<lambda>w. py_in w chunk_text_lower)
                                  [''excluded'', ''not covered'', ''exceptions'']
                        then ''No''
                        else ''Unclear'')
                  else ''Unclear'')
           in \<lparr>ans_answer =
                  Some (''Based on the most relevant document section, '' @
                        py_slice_to (ci_text best_chunk) 200 @ ''...''),
                ans_decision = Some decision,
                ans_confidence = Some (min confidence (float64 (7 / 10))),
                ans_reasoning =
                  Some ''Answer generated based on keyword matching and document similarity.'',
                ans_supporting_evidence = Some [py_slice_to (ci_text best_chunk) 100 @ ''...''],
                ans_conflicting_evidence = Some [],
                ans_key_factors = Some [''Document similarity score'', ''Keyword matching''],
                ans_limitations =
                  Some [''Rule-based analysis'', ''Limited context understanding''],
                ans_token_usage = Some 0\<rparr>))"

text \<open>
  \<open>generate_answer\<close>. Without a pipeline the rule-based answer is a dictionary, not a
  string, so the JSON branch is skipped and the rule-based answer is returned; with a
  pipeline, an exception or a text without JSON object leads to the same answer. The
  prompt is built before the \<open>try\<close> block; formatting the text and the score of a chunk
  for it does not raise.
\<close>

definition generate_answer ::
  "llm_env \<Rightarrow> llm_service \<Rightarrow> string \<Rightarrow> chunk_info list \<Rightarrow> string option
     \<Rightarrow> (answer_data \<times> llm_service) result" where
  "generate_answer env st query relevant_chunks domain =
     rbind (llm_initialize env st) (\<lambda>st1.
       Inr (case pipeline st1 of
              None \<Rightarrow> rule_based_answer_generation query relevant_chunks domain
            | Some p \<Rightarrow>
                (case generated_answer p query relevant_chunks domain of
                   Inr (Some parsed) \<Rightarrow> parsed
                 | _ \<Rightarrow> rule_based_answer_generation query relevant_chunks domain),
            st1))"

section \<open>Query orchestrator (core/query\_processor.py)\<close>

text \<open>
  The request and response objects, with the fields that \<open>process_query\<close> reads and
  the keyword arguments it passes to the constructors (their classes are declared in
  \<open>models/schemas.py\<close>; the constructors are taken to accept these values).
  \<open>req_domain\<close> is the name of the domain when one is given. The wall-clock fields
  \<open>processing_time_ms\<close> and \<open>timestamp\<close> are left out, and the identifier that
  \<open>uuid.uuid4()\<close> draws is an argument of the call.
\<close>

record query_request =
  req_query :: string
  req_domain :: "string option"
  req_document_id :: "string option"
  max_results :: "int option"

record clause_match =
  clause_id :: string
  clause_text :: string
  relevance_score :: real
  page_number :: "int option"
  clause_section :: "string option"

record decision_rationale =
  reasoning :: string
  supporting_clauses :: "string list"
  conflicting_clauses :: "string list"
  confidence_score :: real
  key_factors :: "string list"

record query_response =
  query_id :: string
  resp_query :: string
  resp_answer :: string
  resp_decision :: "string option"
  matched_clauses :: "clause_match list"
  rationale :: decision_rationale
  token_usage :: "int option"

text \<open>
  The three shared services and the table of stored queries, and what each service
  finds outside itself.
\<close>

record services =
  embedding :: embedding_service
  reranking :: reranking_service
  llm :: llm_service
  stored_queries :: "(query_request \<times> query_response) list"

record system_env =
  of_embedding :: embedding_env
  of_reranking :: reranking_env
  of_llm :: llm_env

text \<open>\<open>d[key]\<close> on a dictionary whose key may be absent.\<close>

definition the_key :: "'a option \<Rightarrow> 'a result" where
  "the_key x = (case x of None \<Rightarrow> Inl KeyError | Some v \<Rightarrow> Inr v)"

text \<open>
  The list of \<open>ClauseMatch\<close> objects. The chunk dictionaries of the chunker carry no
  \<open>page_number\<close> and no \<open>section\<close>, so both \<open>get\<close> calls give \<open>None\<close>.
\<close>

fun clause_matches :: "chunk_info list \<Rightarrow> clause_match list result" where
  "clause_matches [] = Inr []"
| "clause_matches (c # cs) =
     rbind (the_key (combined_score c)) (\<lambda>score.
     rbind (clause_matches cs) (\<lambda>rest.
       Inr (\<lparr>clause_id = chunk_id c, clause_text = ci_text c, relevance_score = score,
             page_number = None, clause_section = None\<rparr> # rest)))"

text \<open>
  The retrieval step: scoped to the document when \<open>query_request.document_id\<close> is
  truthy, that is, given and not the empty string.
\<close>

definition retrieve ::
  "embedding_env \<Rightarrow> embedding_service \<Rightarrow> query_request
     \<Rightarrow> (chunk_info list \<times> embedding_service) result" where
  "retrieve env st request =
     (case req_document_id request of
        None \<Rightarrow> search env st (req_query request) (max_results request)
      | Some doc \<Rightarrow>
          if doc = [] then search env st (req_query request) (max_results request)
          else search_by_document env st (req_query request) doc (max_results request))"

text \<open>\<open>process_query\<close>. No step of it is guarded: an exception of any step leaves it.\<close>

definition process_query ::
  "system_env \<Rightarrow> services \<Rightarrow> query_request \<Rightarrow> string \<Rightarrow> (query_response \<times> services) result" where
  "process_query env sys request new_id =
     rbind (extract_structured_query (of_llm env) (llm sys) (req_query request)
              (req_domain request)) (\<lambda>(structured, llm1).
     rbind (retrieve (of_embedding env) (embedding sys) request) (\<lambda>(document_results, emb1).
     rbind (rerank_results (of_reranking env) (reranking sys) (req_query request)
              document_results (max_results request)) (\<lambda>(reranked_results, rr1).
     rbind (generate_answer (of_llm env) llm1 (req_query request) reranked_results
              (req_domain request)) (\<lambda>(response_data, llm2).
     rbind (clause_matches reranked_results) (\<lambda>matched.
     rbind (the_key (ans_reasoning response_data)) (\<lambda>rs.
     rbind (the_key (ans_supporting_evidence response_data)) (\<lambda>supporting.
     rbind (the_key (ans_confidence response_data)) (\<lambda>confidence.
     rbind (the_key (ans_key_factors response_data)) (\<lambda>factors.
     rbind (the_key (ans_answer response_data)) (\<lambda>ans.
       let response =
             \<lparr>query_id = new_id, resp_query = req_query request, resp_answer = ans,
              resp_decision = ans_decision response_data, matched_clauses = matched,
              rationale =
                \<lparr>reasoning = rs, supporting_clauses = supporting,
                 conflicting_clauses =
                   (case ans_conflicting_evidence response_data of None \<Rightarrow> [] | Some cs \<Rightarrow> cs),
                 confidence_score = confidence, key_factors = factors\<rparr>,
              token_usage = ans_token_usage response_data\<rparr>
       in Inr (response,
               sys\<lparr>embedding := emb1, reranking := rr1, llm := llm2,
                   stored_queries := stored_queries sys @ [(request, response)]\<rparr>)))))))))))"

text \<open>
  A request is scoped to a document when its \<open>document_id\<close> is truthy. Its \<open>max_results\<close>
  is usable when it is a non-negative integer, or absent on a request that is not
  scoped: a negative value fails the assertion of the index search, and an absent one
  cannot be doubled for the scoped search.
\<close>

definition scoped :: "query_request \<Rightarrow> bool" where
  "scoped request = (case req_document_id request of None \<Rightarrow> False | Some doc \<Rightarrow> doc \<noteq> [])"

definition usable_max_results :: "query_request \<Rightarrow> bool" where
  "usable_max_results request =
     (case max_results request of None \<Rightarrow> \<not> scoped request | Some k \<Rightarrow> 0 \<le> k)"

text \<open>
  The services are operational when the embedding service is or can be initialised,
  with its model and index set and dense slot ids, the reranker has or can load its
  model, and the language model service is or can be initialised without a
  text-generation pipeline, so that answers come from the rule-based fallback.
\<close>

definition operational :: "system_env \<Rightarrow> services \<Rightarrow> bool" where
  "operational env sys =
     ((case initialize (of_embedding env) (embedding sys) of
         Inr emb1 \<Rightarrow> ready emb1 \<and> dense (slots emb1) | Inl e \<Rightarrow> False) \<and>
      (case rr_initialize (of_reranking env) (reranking sys) of
         Inr rr1 \<Rightarrow> rr_model rr1 \<noteq> None | Inl e \<Rightarrow> False) \<and>
      (case llm_initialize (of_llm env) (llm sys) of
         Inr llm1 \<Rightarrow> pipeline llm1 = None | Inl e \<Rightarrow> False))"

text \<open>The response of the rule-based fallback when there is no evidence.\<close>

definition insufficient_information :: "query_response \<Rightarrow> bool" where
  "insufficient_information response =
     (resp_answer response = ''I couldn't find relevant information to answer your question.'' \<and>
      resp_decision response = Some ''Unclear'' \<and>
      confidence_score (rationale response) = float64 (1 / 10) \<and>
      supporting_clauses (rationale response) = [] \<and>
      key_factors (rationale response) = [''Insufficient information''])"

text \<open>
  Two instances of the system, each with the services as they are created, no persisted
  index and no document. In \<open>unavailable_env\<close> no model can be loaded: neither the
  embedding model, nor a reranking model, nor the language model. In \<open>fallback_env\<close>
  only the language model is missing.
\<close>

definition unavailable_env :: system_env where
  "unavailable_env =
     \<lparr>of_embedding = \<lparr>load_embedding_model = Inl LoadError, faiss_file = Missing,
                       metadata_file = Missing, py_int = (\<lambda>s. None)\<rparr>,
      of_reranking = \<lparr>load_cross_encoder = Inl LoadError, load_bi_encoder = Inl LoadError\<rparr>,
      of_llm = \<lparr>load_tokenizer = Inr (), load_pipeline = Inl LoadError\<rparr>\<rparr>"

definition fallback_env :: system_env where
  "fallback_env =
     \<lparr>of_embedding = demo_env, of_reranking = demo_rr_env,
      of_llm = \<lparr>load_tokenizer = Inr (), load_pipeline = Inl LoadError\<rparr>\<rparr>"

definition new_services :: services where
  "new_services =
     \<lparr>embedding = new_embedding_service, reranking = new_reranking_service,
      llm = new_llm_service, stored_queries = []\<rparr>"

definition demo_request :: query_request where
  "demo_request =
     \<lparr>req_query = ''Is knee surgery covered?'', req_domain = None,
      req_document_id = None, max_results = Some 5\<rparr>"

definition demo_response :: query_response where
  "demo_response =
     \<lparr>query_id = ''q-1'', resp_query = ''Is knee surgery covered?'',
      resp_answer = ''I couldn't find relevant information to answer your question.'',
      resp_decision = Some ''Unclear'', matched_clauses = [],
      rationale =
        \<lparr>reasoning = ''No relevant document excerpts found for the query.'',
         supporting_clauses = [], conflicting_clauses = [], confidence_score = float64 (1 / 10),
         key_factors = [''Insufficient information'']\<rparr>,
      token_usage = Some 0\<rparr>"

section \<open>Properties of the chunker\<close>

lemma py_slice_window:
  assumes "0 \<le> i" "0 < wsz"
  shows "py_slice ws i (i + wsz) = take (nat wsz) (drop (nat i) ws)"
proof (cases "nat i \<le> length ws")
  case True
  with assms have "norm_index (length ws) i = nat i"
    by (simp add: norm_index_def)
  moreover from assms have "norm_index (length ws) (i + wsz) = min (length ws) (nat i + nat wsz)"
    by (simp add: norm_index_def nat_add_distrib)
  moreover have "take (min (length ws) (nat i + nat wsz) - nat i) (drop (nat i) ws) =
                 take (nat wsz) (drop (nat i) ws)"
  proof (cases "length ws \<le> nat i + nat wsz")
    case True
    then have "length (drop (nat i) ws) \<le> nat wsz" by simp
    then have "take (nat wsz) (drop (nat i) ws) = drop (nat i) ws" by (rule take_all)
    with True show ?thesis by (simp add: min_def)
  next
    case False
    then show ?thesis by (simp add: min_def)
  qed
  ultimately show ?thesis
    by (simp add: py_slice_def Let_def)
next
  case False
  with assms show ?thesis
    by (simp add: py_slice_def norm_index_def Let_def)
qed

lemma simple_chunk_window:
  assumes "0 < wsz"
  shows "simple_chunk ws wsz (int (k * stride)) (int k) = word_chunk k (window ws (nat wsz) stride k)"
proof -
  have "py_slice ws (int (k * stride)) (int (k * stride) + wsz) =
        take (nat wsz) (drop (nat (int (k * stride))) ws)"
    using assms by (intro py_slice_window) simp_all
  then have "py_slice ws (int (k * stride)) (int (k * stride) + wsz) = window ws (nat wsz) stride k"
    unfolding window_def nat_int .
  then show ?thesis
    unfolding simple_chunk_def word_chunk_def Let_def by simp
qed

lemma window_count_less_iff:
  assumes "0 < stride"
  shows "k < window_count n stride \<longleftrightarrow> k * stride < n"
proof -
  have "Suc k \<le> window_count n stride \<longleftrightarrow> Suc k * stride \<le> n + stride - 1"
    using assms by (simp add: window_count_def less_eq_div_iff_mult_less_eq)
  also have "\<dots> \<longleftrightarrow> k * stride < n"
    using assms by auto
  finally show ?thesis by (simp add: Suc_le_eq)
qed

text \<open>The loop started at window \<open>j\<close> emits the windows \<open>j, j + 1, \<dots>\<close> up to the last.\<close>

lemma simple_loop_from:
  assumes "0 < stride" "0 < wsz"
  shows "simple_loop ws wsz (int stride) (int (j * stride)) (int j) =
         map (\<lambda>k. word_chunk k (window ws (nat wsz) stride k)) [j..<window_count (length ws) stride]"
  using assms
proof (induction "length ws - j * stride" arbitrary: j rule: less_induct)
  case less
  show ?case
  proof (cases "j * stride < length ws")
    case True
    then have lt: "j < window_count (length ws) stride"
      using less.prems by (simp add: window_count_less_iff)
    have "length ws - Suc j * stride < length ws - j * stride"
      using True less.prems by simp
    from less.hyps [OF this less.prems]
    have IH: "simple_loop ws wsz (int stride) (int (Suc j * stride)) (int (Suc j)) =
              map (\<lambda>k. word_chunk k (window ws (nat wsz) stride k))
                [Suc j..<window_count (length ws) stride]" .
    have "simple_loop ws wsz (int stride) (int (j * stride)) (int j) =
          simple_chunk ws wsz (int (j * stride)) (int j) #
          simple_loop ws wsz (int stride) (int (Suc j * stride)) (int (Suc j))"
    proof -
      have cond: "0 < int stride \<and> int (j * stride) < int (length ws)"
        using True less.prems by (simp del: of_nat_mult)
      have next_i: "int (j * stride) + int stride = int (Suc j * stride)"
        by (simp add: algebra_simps)
      have next_idx: "int j + 1 = int (Suc j)" by simp
      show ?thesis
        by (subst simple_loop.simps) (simp only: cond if_True next_i next_idx simp_thms)
    qed
    then show ?thesis
      using IH lt simple_chunk_window [OF less.prems(2)] by (simp add: upt_conv_Cons)
  next
    case False
    then have ge: "window_count (length ws) stride \<le> j"
      using less.prems by (simp add: window_count_less_iff not_less [symmetric])
    from False have "\<not> (0 < int stride \<and> int (j * stride) < int (length ws))"
      by (simp del: of_nat_mult)
    then show ?thesis using ge by (subst simple_loop.simps) (simp del: of_nat_mult)
  qed
qed

lemma simple_chunking_windows:
  assumes "0 < chunk_size" "overlap < chunk_size"
  shows "simple_chunking t chunk_size overlap =
         Inr (map (\<lambda>k. word_chunk k (window (py_split t) (nat chunk_size) (nat (chunk_size - overlap)) k))
                [0..<window_count (length (py_split t)) (nat (chunk_size - overlap))])"
proof -
  have "simple_loop (py_split t) chunk_size (int (nat (chunk_size - overlap))) (int (0 * nat (chunk_size - overlap))) (int 0) =
        map (\<lambda>k. word_chunk k (window (py_split t) (nat chunk_size) (nat (chunk_size - overlap)) k))
          [0..<window_count (length (py_split t)) (nat (chunk_size - overlap))]"
    using assms by (intro simple_loop_from) simp_all
  with assms show ?thesis
    by (simp add: simple_chunking_def Let_def)
qed

lemma window_nonempty:
  assumes "0 < stride" "0 < wsz" "k < window_count (length ws) stride"
  shows "window ws wsz stride k \<noteq> []"
  using assms by (simp add: window_def window_count_less_iff)

lemma py_split_abcdefgh:
  "py_split ''a b c d e f g h'' = [''a'', ''b'', ''c'', ''d'', ''e'', ''f'', ''g'', ''h'']"
  by (simp add: py_split_def is_space_def)

text \<open>
  C3. In word mode, for every text and every chunk size and overlap with
  \<open>0 < chunk_size\<close> and \<open>overlap < chunk_size\<close>, the chunker returns the windows of
  \<open>chunk_size\<close> words taken at stride \<open>chunk_size - overlap\<close> over the whitespace-separated
  words of the text, the last (possibly partial) window included; every emitted window is
  non-empty and the window after the last one would be empty; chunk \<open>k\<close> carries
  \<open>chunk_index = k\<close>, so the indices are \<open>0 .. N-1\<close>. Chunking \<open>a b c d e f g h\<close> with
  chunk size 4 and overlap 1 gives \<open>a b c d\<close>, \<open>d e f g\<close>, \<open>g h\<close>, and the empty text gives
  no chunk.
\<close>

theorem simple_chunking_sliding_window:
  assumes "0 < chunk_size" and "overlap < chunk_size"
  shows "(\<exists>chunks.
            simple_chunking t chunk_size overlap = Inr chunks \<and>
            chunks = map (\<lambda>k. word_chunk k
                        (window (py_split t) (nat chunk_size) (nat (chunk_size - overlap)) k))
                       [0..<window_count (length (py_split t)) (nat (chunk_size - overlap))] \<and>
            map chunk_index chunks = map int [0..<length chunks] \<and>
            (\<forall>k < length chunks.
               window (py_split t) (nat chunk_size) (nat (chunk_size - overlap)) k \<noteq> []) \<and>
            window (py_split t) (nat chunk_size) (nat (chunk_size - overlap)) (length chunks) = []) \<and>
         simple_chunking ''a b c d e f g h'' 4 1 =
           Inr [\<lparr>chunk_index = 0, ctext = ''a b c d'', word_count = 4, char_count = 7\<rparr>,
                \<lparr>chunk_index = 1, ctext = ''d e f g'', word_count = 4, char_count = 7\<rparr>,
                \<lparr>chunk_index = 2, ctext = ''g h'', word_count = 2, char_count = 3\<rparr>] \<and>
         simple_chunking [] chunk_size overlap = Inr []"
proof -
  let ?stride = "nat (chunk_size - overlap)"
  let ?ws = "py_split t"
  let ?n = "window_count (length ?ws) ?stride"
  let ?chunks = "map (\<lambda>k. word_chunk k (window ?ws (nat chunk_size) ?stride k)) [0..<?n]"
  have pos: "0 < ?stride" "0 < nat chunk_size" using assms by simp_all
  have run: "simple_chunking t chunk_size overlap = Inr ?chunks"
    using assms by (rule simple_chunking_windows)
  have idx: "map chunk_index ?chunks = map int [0..<length ?chunks]"
    by (simp add: word_chunk_def comp_def)
  have nonempty: "\<forall>k < length ?chunks. window ?ws (nat chunk_size) ?stride k \<noteq> []"
    using pos by (simp add: window_nonempty)
  have "\<not> ?n * ?stride < length ?ws"
    using window_count_less_iff [OF pos(1), of ?n "length ?ws"] by simp
  then have past: "window ?ws (nat chunk_size) ?stride (length ?chunks) = []"
    by (simp add: window_def)
  have example: "simple_chunking ''a b c d e f g h'' 4 1 =
           Inr [\<lparr>chunk_index = 0, ctext = ''a b c d'', word_count = 4, char_count = 7\<rparr>,
                \<lparr>chunk_index = 1, ctext = ''d e f g'', word_count = 4, char_count = 7\<rparr>,
                \<lparr>chunk_index = 2, ctext = ''g h'', word_count = 2, char_count = 3\<rparr>]"
  proof -
    have "window_count 8 3 = 3" by (simp add: window_count_def)
    then show ?thesis
      by (simp add: simple_chunking_windows py_split_abcdefgh window_def word_chunk_def
          eval_nat_numeral)
  qed
  have empty: "simple_chunking [] chunk_size overlap = Inr []"
    using assms by (simp add: simple_chunking_windows py_split_def window_count_def)
  from run idx nonempty past example empty show ?thesis by blast
qed

theorem simple_chunking_sliding_window_witness:
  "(0::int) < 3 \<and> (1::int) < 3 \<and>
   simple_chunking ''to be or not'' 3 1 =
     Inr [\<lparr>chunk_index = 0, ctext = ''to be or'', word_count = 3, char_count = 8\<rparr>,
          \<lparr>chunk_index = 1, ctext = ''or not'', word_count = 2, char_count = 6\<rparr>]"
proof -
  have ws: "py_split ''to be or not'' = [''to'', ''be'', ''or'', ''not'']"
    by (simp add: py_split_def is_space_def)
  from simple_chunking_sliding_window [of 3 1 "''to be or not''"]
  obtain chunks where
    "simple_chunking ''to be or not'' 3 1 = Inr chunks"
    "chunks = map (\<lambda>k. word_chunk k (window (py_split ''to be or not'') (nat 3) (nat (3 - 1)) k))
                [0..<window_count (length (py_split ''to be or not'')) (nat (3 - 1))]"
    by auto
  moreover have "window_count 4 2 = 2" by (simp add: window_count_def)
  ultimately show ?thesis
    by (simp add: ws window_def word_chunk_def eval_nat_numeral)
qed

text \<open>
  C5 as stated fails: a word-mode call whose overlap exceeds the chunk size is not
  rejected. It returns normally, with no chunk, and the words of the text are dropped.
\<close>

theorem chunk_text_overlap_not_rejected:
  "chunk_text None ''a b c'' (Some 2) (Some 3) = Inr []"
  by (simp add: chunk_text_def int_or_def simple_chunking_def)

text \<open>
  C5, amended. The chunker does not validate its configuration. In word mode a call with
  \<open>overlap = chunk_size\<close> raises (the stride of the loop is zero) and returns no chunk,
  and a call with \<open>overlap > chunk_size\<close> raises nothing and returns the empty chunk
  sequence, for every text; both hold for \<open>chunk_text\<close> without a sentence segmenter
  when the sizes are given and non-zero.
\<close>

theorem simple_chunking_overlap_ge_chunk_size:
  "(overlap = chunk_size \<longrightarrow> simple_chunking t chunk_size overlap = Inl ValueError) \<and>
   (chunk_size < overlap \<longrightarrow> simple_chunking t chunk_size overlap = Inr []) \<and>
   (chunk_size \<noteq> 0 \<and> overlap \<noteq> 0 \<longrightarrow>
      chunk_text None t (Some chunk_size) (Some overlap) = simple_chunking t chunk_size overlap)"
  by (simp add: simple_chunking_def chunk_text_def int_or_def)

theorem simple_chunking_overlap_ge_chunk_size_witness:
  "simple_chunking ''a b c'' 2 2 = Inl ValueError \<and>
   simple_chunking ''a b c'' 2 5 = Inr [] \<and>
   chunk_text None ''a b c'' (Some 2) (Some 5) = simple_chunking ''a b c'' 2 5"
  using simple_chunking_overlap_ge_chunk_size [of 2 2 "''a b c''"]
        simple_chunking_overlap_ge_chunk_size [of 5 2 "''a b c''"]
  by simp

section \<open>Properties of the vector index and the retriever\<close>

lemma rbind_Inr [simp]: "rbind (Inr x) f = f x"
  by (simp add: rbind_def)

lemma rbind_Inl [simp]: "rbind (Inl e) f = Inl e"
  by (simp add: rbind_def)

lemma rbind_eq_Inr:
  "rbind m f = Inr y \<longleftrightarrow> (\<exists>x. m = Inr x \<and> f x = Inr y)"
  by (cases m) simp_all

lemma initialize_initialized: "is_initialized st \<Longrightarrow> initialize env st = Inr st"
  by (simp add: initialize_def)

lemma initialize_result:
  assumes "initialize env st = Inr st1"
  shows "is_initialized st1"
  using assms by (auto simp: initialize_def rbind_eq_Inr split: if_splits)

lemma initialize_again:
  assumes "initialize env st = Inr st1"
  shows "initialize env st1 = Inr st1"
  using assms by (simp add: initialize_initialized initialize_result)

lemma search_after_initialize:
  assumes "initialize env st = Inr st1"
  shows "search env st1 query top_k = search env st query top_k"
  using assms by (simp add: search_def initialize_again)

lemma py_slice_to_take: "0 \<le> k \<Longrightarrow> py_slice_to xs k = take (nat k) xs"
  by (simp add: py_slice_to_def norm_index_def min_def)

lemma search_by_document_Some:
  assumes "0 < k"
  shows "search_by_document env st query doc (Some k) =
         rbind (search env st query (Some (2 * k)))
           (\<lambda>(all_results, st').
              Inr (take (nat k) (filter (\<lambda>r. document_id r = doc) all_results), st'))"
proof (cases "initialize env st")
  case (Inl e)
  then show ?thesis by (simp add: search_by_document_def search_def)
next
  case (Inr st1)
  have "int_or (Some k) MAX_RETRIEVAL_RESULTS = k"
    using assms by (simp add: int_or_def)
  moreover have "py_slice_to xs k = take (nat k) xs" for xs :: "chunk_info list"
    using assms by (simp add: py_slice_to_take)
  ultimately show ?thesis
    using Inr
    by (simp add: search_by_document_def times2_def search_after_initialize mult.commute Let_def)
qed

lemma flat_ip_search_length:
  assumes "flat_ip_search vectors q k = Inr hits"
  shows "int (length hits) = k"
  using assms by (auto simp: flat_ip_search_def Let_def split: if_splits)

lemma search_by_document_None_initialized:
  assumes "initialize env st = Inr st1"
  shows "search_by_document env st query doc None = Inl TypeError"
  using assms by (simp add: search_by_document_def times2_def)

lemma search_by_document_None_raises:
  "\<exists>e. search_by_document env st query doc None = Inl e"
  by (cases "initialize env st") (simp_all add: search_by_document_def times2_def)

lemma update_fresh:
  "k \<notin> fst ` set al \<Longrightarrow> AList.update k v al = al @ [(k, v)]"
  by (induction al) auto

lemma dense_fresh:
  assumes "dense (map fst dc)"
  shows "int (length dc) \<notin> fst ` set dc"
proof -
  have "set (map fst dc) = set (map int [0..<length dc])"
    using assms by (simp add: dense_def)
  then have "fst ` set dc = int ` {0..<length dc}" by simp
  then show ?thesis by auto
qed

lemma dense_snoc:
  assumes "dense ks"
  shows "dense (ks @ [int (length ks)])"
proof -
  have "map int [0..<length (ks @ [int (length ks)])] = map int [0..<length ks] @ [int (length ks)]"
    by simp
  with assms show ?thesis unfolding dense_def by simp
qed

lemma store_chunks_slots:
  assumes "dense (map fst dc)"
  shows "map fst (store_chunks doc chunks dc) =
           map fst dc @ map int [length dc..<length dc + length chunks] \<and>
         take (length dc) (store_chunks doc chunks dc) = dc \<and>
         dense (map fst (store_chunks doc chunks dc))"
  using assms
proof (induction chunks arbitrary: dc)
  case Nil
  then show ?case by simp
next
  case (Cons c chunks)
  let ?dc = "dc @ [(int (length dc), chunk_entry doc c)]"
  have upd: "AList.update (int (length dc)) (chunk_entry doc c) dc = ?dc"
    using Cons.prems by (intro update_fresh dense_fresh)
  have d: "dense (map fst ?dc)"
    using dense_snoc [OF Cons.prems] by simp
  note IH = Cons.IH [OF d, THEN conjunct1] Cons.IH [OF d, THEN conjunct2, THEN conjunct1]
    Cons.IH [OF d, THEN conjunct2, THEN conjunct2]
  have "take (length dc) (store_chunks doc chunks ?dc) =
        take (length dc) (take (length ?dc) (store_chunks doc chunks ?dc))"
    by (simp add: min_def)
  also have "\<dots> = dc" by (simp only: IH(2)) simp
  finally have keep: "take (length dc) (store_chunks doc chunks ?dc) = dc" .
  have split: "[length dc..<length dc + length (c # chunks)] =
        length dc # [length ?dc..<length ?dc + length chunks]"
  proof -
    have "length dc < length dc + length (c # chunks)" by simp
    then have "[length dc..<length dc + length (c # chunks)] =
               length dc # [Suc (length dc)..<length dc + length (c # chunks)]"
      by (rule upt_conv_Cons)
    then show ?thesis by simp
  qed
  have run: "store_chunks doc (c # chunks) dc = store_chunks doc chunks ?dc"
    by (simp add: upd)
  have "map fst (store_chunks doc (c # chunks) dc) =
        map fst dc @ map int [length dc..<length dc + length (c # chunks)]"
    unfolding run IH(1) split by simp
  moreover have "take (length dc) (store_chunks doc (c # chunks) dc) = dc"
    unfolding run by (rule keep)
  moreover have "dense (map fst (store_chunks doc (c # chunks) dc))"
    unfolding run by (rule IH(3))
  ultimately show ?case by blast
qed

lemma add_documents_ready:
  assumes "ready st"
  shows "\<exists>chunk_ids st'. add_documents env st doc chunks = Inr (chunk_ids, st') \<and>
           document_chunks st' = store_chunks doc chunks (document_chunks st) \<and> ready st'"
  using assms
  by (auto simp: ready_def add_documents_def initialize_initialized the_attr_def Let_def)

lemma remove_document_slots: "slots (remove_document st doc) = slots st"
  by (simp add: slots_def remove_document_def comp_def case_prod_unfold)

lemma remove_document_ready: "ready (remove_document st doc) = ready st"
  by (simp add: ready_def remove_document_def)

lemma run_call_slots:
  assumes "ready st" "dense (slots st)"
  shows "slots (run_call env st call) =
           slots st @ map int [length (slots st)..<length (slots st) + added call] \<and>
         ready (run_call env st call) \<and> dense (slots (run_call env st call))"
proof (cases call)
  case (AddDocuments doc chunks)
  from add_documents_ready [OF assms(1), of env doc chunks]
  obtain chunk_ids st' where
    "add_documents env st doc chunks = Inr (chunk_ids, st')"
    "document_chunks st' = store_chunks doc chunks (document_chunks st)" "ready st'"
    by blast
  note add = this
  note sc = store_chunks_slots [of "document_chunks st" doc chunks, OF assms(2) [unfolded slots_def]]
  have "slots st' = slots st @ map int [length (slots st)..<length (slots st) + length chunks]"
    unfolding slots_def add(2) using sc [THEN conjunct1] by simp
  moreover have "dense (slots st')"
    unfolding slots_def add(2) by (rule sc [THEN conjunct2, THEN conjunct2])
  ultimately show ?thesis
    using AddDocuments add(1,3) by simp
next
  case (RemoveDocument doc)
  then show ?thesis
    using assms by (simp add: remove_document_slots remove_document_ready)
qed

lemma run_calls_slots:
  assumes "ready st" "dense (slots st)"
  shows "slots (run_calls env st calls) =
           map int [0..<length (slots st) + sum_list (map added calls)] \<and>
         ready (run_calls env st calls) \<and> dense (slots (run_calls env st calls))"
  using assms
proof (induction calls arbitrary: st)
  case Nil
  then show ?case by (simp add: run_calls_def dense_def)
next
  case (Cons call calls)
  note r = run_call_slots [OF Cons.prems, of env call]
  note step = r [THEN conjunct1] r [THEN conjunct2, THEN conjunct1]
    r [THEN conjunct2, THEN conjunct2]
  have len: "length (slots (run_call env st call)) = length (slots st) + added call"
    by (simp add: step(1))
  have unfold: "run_calls env st (call # calls) = run_calls env (run_call env st call) calls"
    by (simp add: run_calls_def)
  have total: "length (slots st) + sum_list (map added (call # calls)) =
                 length (slots (run_call env st call)) + sum_list (map added calls)"
    by (simp add: len)
  show ?case
    unfolding unfold total by (rule Cons.IH [OF step(2) step(3)])
qed

lemma str_int_0: "str_int 0 = ''0''"
  by (simp add: str_int_def str_nat.simps)

lemma demo_service_eq:
  "demo_service =
     \<lparr>model = Some demo_encode, index = Some [[1, 0], [0, 1]],
      document_chunks = [(0, chunk_entry ''d1'' alpha_chunk), (1, chunk_entry ''d2'' beta_chunk)],
      is_initialized = True\<rparr>"
  by (simp add: demo_service_def run_calls_def add_documents_def initialize_def load_index_def
      load_index_try_def demo_env_def new_embedding_service_def the_attr_def alpha_chunk_def
      beta_chunk_def demo_encode_def)

lemma demo_removed:
  "remove_document demo_service ''d1'' =
     \<lparr>model = Some demo_encode, index = Some [[1, 0], [0, 1]],
      document_chunks = [(0, (chunk_entry ''d1'' alpha_chunk)\<lparr>deleted := Some True\<rparr>),
                         (1, chunk_entry ''d2'' beta_chunk)],
      is_initialized = True\<rparr>"
  by (simp add: demo_service_eq remove_document_def chunk_entry_def)

lemma demo_hits: "flat_ip_search [[1, 0], [0, 1]] (demo_encode ''alpha'') 1 = Inr [(1, 0)]"
  by (simp add: flat_ip_search_def demo_encode_def dot_def Let_def upt_rec)

text \<open>
  C1. After \<open>remove_document\<close>, a search must not return an entry of the removed
  document. The code does: with one chunk of \<open>d1\<close> and one of \<open>d2\<close> in the index,
  removing \<open>d1\<close> and searching for the text of its chunk with \<open>top_k = 1\<close> returns that
  chunk, marked as deleted, while the statistics of the same service count one active
  chunk only.
\<close>

theorem search_returns_removed_document:
  "search demo_env (remove_document demo_service ''d1'') ''alpha'' (Some 1) =
     Inr ([(chunk_entry ''d1'' alpha_chunk)\<lparr>deleted := Some True, similarity_score := Some 1\<rparr>],
          remove_document demo_service ''d1'') \<and>
   active_chunks (remove_document demo_service ''d1'') = 1"
  by (simp add: demo_removed search_def initialize_def the_attr_def int_or_def demo_hits
      dict_get_def active_chunks_def is_deleted_def chunk_entry_def)

text \<open>
  C7. For every query, document and positive \<open>top_k\<close>, \<open>search_by_document\<close> is the
  search with \<open>2 * top_k\<close>, filtered to the entries of the document and cut to the
  first \<open>top_k\<close>; the index answers that search with exactly \<open>2 * top_k\<close> hits; and a
  returned list has at most \<open>top_k\<close> entries, all of the document asked for, whatever
  the search found.
\<close>

theorem search_by_document_overfetch_filter:
  assumes "0 < k"
  shows "search_by_document env st query doc (Some k) =
           rbind (search env st query (Some (2 * k)))
             (\<lambda>(all_results, st').
                Inr (take (nat k) (filter (\<lambda>r. document_id r = doc) all_results), st')) \<and>
         search env st query (Some (2 * k)) =
           rbind (initialize env st) (\<lambda>st1.
           rbind (the_attr (model st1)) (\<lambda>encode.
           rbind (the_attr (index st1)) (\<lambda>vectors.
           rbind (flat_ip_search vectors (encode query) (2 * k)) (\<lambda>hits.
           rbind (collect_results (document_chunks st1) hits) (\<lambda>results.
             Inr (results, st1)))))) \<and>
         (\<forall>vectors q hits. flat_ip_search vectors q (2 * k) = Inr hits \<longrightarrow>
            int (length hits) = 2 * k) \<and>
         (\<forall>results st'. search_by_document env st query doc (Some k) = Inr (results, st') \<longrightarrow>
            int (length results) \<le> k \<and> (\<forall>r \<in> set results. document_id r = doc))"
proof -
  note eq = search_by_document_Some [OF assms, of env st query doc]
  have "int_or (Some (2 * k)) MAX_RETRIEVAL_RESULTS = 2 * k"
    using assms by (simp add: int_or_def)
  then have unfold: "search env st query (Some (2 * k)) =
           rbind (initialize env st) (\<lambda>st1.
           rbind (the_attr (model st1)) (\<lambda>encode.
           rbind (the_attr (index st1)) (\<lambda>vectors.
           rbind (flat_ip_search vectors (encode query) (2 * k)) (\<lambda>hits.
           rbind (collect_results (document_chunks st1) hits) (\<lambda>results.
             Inr (results, st1))))))"
    by (simp add: search_def Let_def)
  have hits: "\<forall>vectors q hits. flat_ip_search vectors q (2 * k) = Inr hits \<longrightarrow>
            int (length hits) = 2 * k"
    by (simp add: flat_ip_search_length)
  have "int (length results) \<le> k \<and> (\<forall>r \<in> set results. document_id r = doc)"
    if "search_by_document env st query doc (Some k) = Inr (results, st')" for results st'
  proof -
    from that obtain all_results where
      "results = take (nat k) (filter (\<lambda>r. document_id r = doc) all_results)"
      unfolding eq by (auto simp: rbind_eq_Inr)
    moreover have "int (min n (nat k)) \<le> k" for n
    proof -
      have "int (min n (nat k)) \<le> int (nat k)"
        by (simp only: of_nat_le_iff min.cobounded2)
      with assms show ?thesis by simp
    qed
    ultimately show ?thesis
      by (auto dest: in_set_takeD)
  qed
  with eq unfold hits show ?thesis by blast
qed

lemma demo_service_search2:
  "search demo_env demo_service ''gamma'' (Some 2) =
     Inr ([(chunk_entry ''d2'' beta_chunk)\<lparr>similarity_score := Some (4 / 5)\<rparr>,
           (chunk_entry ''d1'' alpha_chunk)\<lparr>similarity_score := Some (3 / 5)\<rparr>], demo_service)"
  by (simp add: demo_service_eq search_def initialize_def the_attr_def int_or_def
      flat_ip_search_def demo_encode_def dot_def Let_def upt_rec dict_get_def)

theorem search_by_document_overfetch_filter_witness:
  "(0::int) < 1 \<and>
   search_by_document demo_env demo_service ''gamma'' ''d1'' (Some 1) =
     Inr ([(chunk_entry ''d1'' alpha_chunk)\<lparr>similarity_score := Some (3 / 5)\<rparr>], demo_service)"
  using search_by_document_overfetch_filter [of 1 demo_env demo_service "''gamma''" "''d1''"]
  by (simp add: demo_service_search2 chunk_entry_def)

text \<open>
  C8. When the index file or the metadata file is missing or cannot be deserialised
  (a key of the metadata that is not an integer included), loading the persisted index
  raises nothing: it leaves a fresh, empty index with no chunk metadata where it was
  called on one, and in every case either keeps the state or resets it to the fresh
  one. Initialisation of a new service then succeeds, with an empty index and empty
  chunk metadata, whenever the embedding model itself can be constructed.
\<close>

theorem restore_falls_back_to_empty_index:
  assumes "store_unusable env"
  shows "load_index env (fresh st) = fresh st \<and>
         (load_index env st = st \<or> load_index env st = fresh st) \<and>
         (\<forall>m. load_embedding_model env = Inr m \<longrightarrow>
            initialize env new_embedding_service =
              Inr \<lparr>model = Some m, index = Some [], document_chunks = [], is_initialized = True\<rparr>)"
proof -
  have either: "load_index env s = s \<or> load_index env s = fresh s" for s
    using assms
    by (cases "faiss_file env"; cases "metadata_file env")
      (auto simp: store_unusable_def index_unreadable_def metadata_unreadable_def
        load_index_def load_index_try_def fresh_def rbind_def split: sum.splits)
  have same: "load_index env (fresh s) = fresh s" for s
    using either [of "fresh s"] by (auto simp: fresh_def)
  have "initialize env new_embedding_service =
          Inr \<lparr>model = Some m, index = Some [], document_chunks = [], is_initialized = True\<rparr>"
    if "load_embedding_model env = Inr m" for m
  proof -
    have "new_embedding_service\<lparr>model := Some m, index := Some []\<rparr> =
          fresh (new_embedding_service\<lparr>model := Some m\<rparr>)"
      by (simp add: fresh_def new_embedding_service_def)
    then show ?thesis
      using that same [of "new_embedding_service\<lparr>model := Some m\<rparr>"]
      by (simp add: initialize_def new_embedding_service_def fresh_def)
  qed
  with same either show ?thesis by blast
qed

theorem restore_falls_back_to_empty_index_witness:
  "store_unusable corrupt_env \<and>
   initialize corrupt_env new_embedding_service =
     Inr \<lparr>model = Some demo_encode, index = Some [], document_chunks = [], is_initialized = True\<rparr>"
proof -
  have u: "store_unusable corrupt_env"
    by (simp add: store_unusable_def metadata_unreadable_def corrupt_env_def)
  have "load_embedding_model corrupt_env = Inr demo_encode"
    by (simp add: corrupt_env_def)
  with restore_falls_back_to_empty_index [OF u, of new_embedding_service] u show ?thesis
    by blast
qed

lemma store_chunks_append:
  assumes "dense (map fst dc)"
  shows "store_chunks doc chunks dc =
           dc @ zip (map int [length dc..<length dc + length chunks]) (map (chunk_entry doc) chunks)"
  using assms
proof (induction chunks arbitrary: dc)
  case Nil
  then show ?case by simp
next
  case (Cons c chunks)
  let ?dc = "dc @ [(int (length dc), chunk_entry doc c)]"
  have upd: "AList.update (int (length dc)) (chunk_entry doc c) dc = ?dc"
    using Cons.prems by (intro update_fresh dense_fresh)
  have d: "dense (map fst ?dc)"
    using dense_snoc [OF Cons.prems] by simp
  have split: "[length dc..<length dc + length (c # chunks)] =
        length dc # [length ?dc..<length ?dc + length chunks]"
  proof -
    have "length dc < length dc + length (c # chunks)" by simp
    then have "[length dc..<length dc + length (c # chunks)] =
               length dc # [Suc (length dc)..<length dc + length (c # chunks)]"
      by (rule upt_conv_Cons)
    then show ?thesis by simp
  qed
  have "store_chunks doc (c # chunks) dc = store_chunks doc chunks ?dc"
    by (simp add: upd)
  also have "\<dots> = ?dc @ zip (map int [length ?dc..<length ?dc + length chunks])
                          (map (chunk_entry doc) chunks)"
    by (rule Cons.IH [OF d])
  finally show ?case
    unfolding split by simp
qed

lemma remove_document_unmarked:
  "map unmarked (document_chunks (remove_document st doc)) = map unmarked (document_chunks st)"
  by (simp add: remove_document_def unmarked_def case_prod_unfold)

lemma remove_document_length:
  "length (document_chunks (remove_document st doc)) = length (document_chunks st)"
  by (simp add: remove_document_def)

lemma run_call_entries:
  assumes "ready st" "dense (slots st)"
  shows "document_chunks (run_call env st (AddDocuments doc chunks)) =
           document_chunks st @
           zip (map int [length (document_chunks st)..<length (document_chunks st) + length chunks])
             (map (chunk_entry doc) chunks)"
    and "map unmarked (take (length (document_chunks st)) (document_chunks (run_call env st call))) =
           map unmarked (document_chunks st)"
proof -
  from add_documents_ready [OF assms(1), of env doc chunks]
  obtain chunk_ids st' where
    "add_documents env st doc chunks = Inr (chunk_ids, st')"
    "document_chunks st' = store_chunks doc chunks (document_chunks st)"
    by blast
  then show add: "document_chunks (run_call env st (AddDocuments doc chunks)) =
           document_chunks st @
           zip (map int [length (document_chunks st)..<length (document_chunks st) + length chunks])
             (map (chunk_entry doc) chunks)"
    using store_chunks_append [OF assms(2) [unfolded slots_def], of doc chunks] by simp
  show "map unmarked (take (length (document_chunks st)) (document_chunks (run_call env st call))) =
           map unmarked (document_chunks st)"
  proof (cases call)
    case (AddDocuments doc' chunks')
    from add_documents_ready [OF assms(1), of env doc' chunks']
    obtain chunk_ids st' where
      "add_documents env st doc' chunks' = Inr (chunk_ids, st')"
      "document_chunks st' = store_chunks doc' chunks' (document_chunks st)"
      by blast
    then show ?thesis
      using store_chunks_append [OF assms(2) [unfolded slots_def], of doc' chunks'] AddDocuments
      by simp
  next
    case (RemoveDocument doc')
    then show ?thesis
      by (simp add: remove_document_unmarked remove_document_length)
  qed
qed

lemma run_calls_entries:
  assumes "ready st" "dense (slots st)"
  shows "map unmarked (take (length (document_chunks st)) (document_chunks (run_calls env st later))) =
           map unmarked (document_chunks st)"
  using assms
proof (induction later arbitrary: st)
  case Nil
  then show ?case by (simp add: run_calls_def)
next
  case (Cons call later)
  let ?st1 = "run_call env st call"
  let ?final = "document_chunks (run_calls env ?st1 later)"
  note r = run_call_slots [OF Cons.prems, of env call]
  note step = r [THEN conjunct1] r [THEN conjunct2, THEN conjunct1]
    r [THEN conjunct2, THEN conjunct2]
  have "length (slots st) \<le> length (slots ?st1)"
    by (simp add: step(1))
  then have le: "length (document_chunks st) \<le> length (document_chunks ?st1)"
    by (simp add: slots_def)
  have unfold: "run_calls env st (call # later) = run_calls env ?st1 later"
    by (simp add: run_calls_def)
  have "map unmarked (take (length (document_chunks st)) ?final) =
        take (length (document_chunks st))
          (map unmarked (take (length (document_chunks ?st1)) ?final))"
    using le by (simp add: take_map min_def)
  also have "\<dots> = take (length (document_chunks st)) (map unmarked (document_chunks ?st1))"
    by (simp only: Cons.IH [OF step(2) step(3)])
  also have "\<dots> = map unmarked (document_chunks st)"
    using run_call_entries(2) [OF Cons.prems, of env call] by (simp add: take_map)
  finally show ?case
    unfolding unfold .
qed

lemma demo_calls:
  "document_chunks (run_calls demo_env demo_ready
     [AddDocuments ''d1'' [alpha_chunk], RemoveDocument ''d1'',
      AddDocuments ''d2'' [beta_chunk, alpha_chunk]]) =
   [(0, (chunk_entry ''d1'' alpha_chunk)\<lparr>deleted := Some True\<rparr>),
    (1, chunk_entry ''d2'' beta_chunk), (2, chunk_entry ''d2'' alpha_chunk)]"
  by (simp add: run_calls_def add_documents_def initialize_def demo_ready_def the_attr_def
      remove_document_def chunk_entry_def Let_def)

text \<open>
  C9. On a ready service whose slot ids are dense (as they are after initialisation
  without a persisted index), every sequence of \<open>add_documents\<close> and \<open>remove_document\<close>
  calls leaves the slot ids \<open>0, 1, \<dots>\<close> up to the number of chunks added so far: they
  are strictly increasing in the order of insertion, and the slots present after a
  prefix of the calls are still the first slots after the whole sequence. A further
  \<open>add_documents\<close> leaves every entry as it is and appends the entries of its chunks, in
  the order of the chunks, under the next slot ids. Whatever calls follow, each slot
  keeps its entry, at its place in the table, up to the deletion mark: no entry is
  removed, replaced or renumbered, and no slot id is assigned again. \<open>remove_document\<close>
  changes no slot id and nothing in the table but the mark of the entries of its
  document.
\<close>

theorem slot_ids_increasing_never_reused:
  assumes "ready st" and "dense (slots st)"
  shows "slots (run_calls env st calls) =
           map int [0..<length (slots st) + sum_list (map added calls)] \<and>
         sorted_wrt (<) (slots (run_calls env st calls)) \<and>
         take (length (slots (run_calls env st calls))) (slots (run_calls env st (calls @ later))) =
           slots (run_calls env st calls) \<and>
         slots (remove_document (run_calls env st calls) doc) = slots (run_calls env st calls) \<and>
         document_chunks (run_call env (run_calls env st calls) (AddDocuments doc chunks)) =
           document_chunks (run_calls env st calls) @
           zip (map int [length (slots (run_calls env st calls))..<
                         length (slots (run_calls env st calls)) + length chunks])
             (map (chunk_entry doc) chunks) \<and>
         map unmarked (take (length (slots (run_calls env st calls)))
                         (document_chunks (run_calls env st (calls @ later)))) =
           map unmarked (document_chunks (run_calls env st calls)) \<and>
         document_chunks (remove_document (run_calls env st calls) doc) =
           map (\<lambda>(slot, entry).
                  (slot, if document_id entry = doc then entry\<lparr>deleted := Some True\<rparr> else entry))
             (document_chunks (run_calls env st calls))"
proof -
  let ?S = "run_calls env st calls"
  note a = run_calls_slots [OF assms, of env calls]
  note b = run_calls_slots [OF assms, of env "calls @ later"]
  have all: "slots ?S = map int [0..<length (slots st) + sum_list (map added calls)]"
    by (rule a [THEN conjunct1])
  have sorted: "sorted_wrt (<) (slots ?S)"
    unfolding all by (simp add: sorted_wrt_map)
  have "take (length (slots st) + sum_list (map added calls))
          (map int [0..<length (slots st) + sum_list (map added (calls @ later))]) =
        map int [0..<length (slots st) + sum_list (map added calls)]"
    by (simp add: take_map min_def)
  then have keep: "take (length (slots ?S)) (slots (run_calls env st (calls @ later))) = slots ?S"
    unfolding b [THEN conjunct1] all by simp
  have S: "ready ?S" "dense (slots ?S)"
    by (rule a [THEN conjunct2, THEN conjunct1]) (rule a [THEN conjunct2, THEN conjunct2])
  have len: "length (slots ?S) = length (document_chunks ?S)"
    by (simp add: slots_def)
  have app: "run_calls env st (calls @ later) = run_calls env ?S later"
    by (simp add: run_calls_def)
  have added: "document_chunks (run_call env ?S (AddDocuments doc chunks)) =
           document_chunks ?S @
           zip (map int [length (slots ?S)..<length (slots ?S) + length chunks])
             (map (chunk_entry doc) chunks)"
    unfolding len by (rule run_call_entries(1) [OF S])
  have kept: "map unmarked (take (length (slots ?S))
                         (document_chunks (run_calls env st (calls @ later)))) =
           map unmarked (document_chunks ?S)"
    unfolding len app by (rule run_calls_entries [OF S])
  have marked: "document_chunks (remove_document ?S doc) =
           map (\<lambda>(slot, entry).
                  (slot, if document_id entry = doc then entry\<lparr>deleted := Some True\<rparr> else entry))
             (document_chunks ?S)"
    by (simp add: remove_document_def)
  from all sorted keep added kept marked show ?thesis
    by (simp add: remove_document_slots)
qed

theorem slot_ids_increasing_never_reused_witness:
  "ready demo_ready \<and> dense (slots demo_ready) \<and>
   slots (run_calls demo_env demo_ready
     [AddDocuments ''d1'' [alpha_chunk], RemoveDocument ''d1'',
      AddDocuments ''d2'' [beta_chunk, alpha_chunk]]) = [0, 1, 2] \<and>
   document_chunks (run_calls demo_env demo_ready
     [AddDocuments ''d1'' [alpha_chunk], RemoveDocument ''d1'',
      AddDocuments ''d2'' [beta_chunk, alpha_chunk]]) =
   [(0, (chunk_entry ''d1'' alpha_chunk)\<lparr>deleted := Some True\<rparr>),
    (1, chunk_entry ''d2'' beta_chunk), (2, chunk_entry ''d2'' alpha_chunk)]"
proof -
  have r: "ready demo_ready" by (simp add: ready_def demo_ready_def)
  have d: "dense (slots demo_ready)" by (simp add: dense_def slots_def demo_ready_def)
  have "map int [0..<3] = [0, 1, 2]" by (simp add: upt_rec)
  with slot_ids_increasing_never_reused [OF r d, of demo_env
      "[AddDocuments ''d1'' [alpha_chunk], RemoveDocument ''d1'',
        AddDocuments ''d2'' [beta_chunk, alpha_chunk]]", THEN conjunct1]
  have "slots (run_calls demo_env demo_ready
     [AddDocuments ''d1'' [alpha_chunk], RemoveDocument ''d1'',
      AddDocuments ''d2'' [beta_chunk, alpha_chunk]]) = [0, 1, 2]"
    by (simp add: slots_def demo_ready_def)
  with r d demo_calls show ?thesis by (intro conjI)
qed

text \<open>
  C10. A call of \<open>search_by_document\<close> without \<open>top_k\<close> never returns, for every query
  and document: it raises. The exception is the \<open>TypeError\<close> of \<open>top_k * 2\<close> whenever
  the call gets past the initialisation of the service, in particular on every service
  that is already initialised, because the product is formed before the default is
  substituted. With a positive \<open>top_k\<close> the call returns whenever the search it makes
  does.
\<close>

theorem search_by_document_without_top_k_raises:
  "(\<exists>e. search_by_document env st query doc None = Inl e) \<and>
   (is_initialized st \<longrightarrow> search_by_document env st query doc None = Inl TypeError) \<and>
   (\<forall>st1. initialize env st = Inr st1 \<longrightarrow>
      search_by_document env st query doc None = Inl TypeError) \<and>
   (\<forall>k results st'. 0 < k \<and> search env st query (Some (2 * k)) = Inr (results, st') \<longrightarrow>
      (\<exists>found. search_by_document env st query doc (Some k) = Inr (found, st')))"
proof -
  have "\<exists>found. search_by_document env st query doc (Some k) = Inr (found, st')"
    if "0 < k" "search env st query (Some (2 * k)) = Inr (results, st')" for k results st'
    using that by (simp add: search_by_document_Some)
  then show ?thesis
    using search_by_document_None_raises [of env st query doc]
      search_by_document_None_initialized [of env st _ query doc]
      initialize_initialized [of st env]
    by blast
qed

theorem search_by_document_without_top_k_raises_witness:
  "is_initialized demo_service \<and>
   search_by_document demo_env demo_service ''gamma'' ''d1'' None = Inl TypeError"
proof -
  have "is_initialized demo_service" by (simp add: demo_service_eq)
  with search_by_document_without_top_k_raises [of demo_env demo_service "''gamma''" "''d1''"]
  show ?thesis by blast
qed

section \<open>Properties of float arithmetic\<close>

text \<open>
  \<open>binade\<close> is the binary exponent, and \<open>float64 x\<close> is a multiple of \<open>2 ^ (binade x - 52)\<close>
  that is nearest to \<open>x\<close> among these multiples, so that its relative error is at most
  \<open>2 ^ -53\<close>. On the decimal literals of the source it gives the ratios that
  \<open>float.as_integer_ratio\<close> reports.
\<close>

lemmas float_eval =
  float_add_def float_mul_def float64_def binade_def compute_floorlog pow2_def
  round_half_even_def Let_def

lemma pow2_powr: "pow2 e = 2 powr (real_of_int e)"
proof (cases "0 \<le> e")
  case True
  then show ?thesis
    by (simp add: pow2_def powr_realpow [symmetric])
next
  case False
  then have "2 powr (real_of_int e) = 1 / 2 powr (real_of_int (- e))"
    by (simp add: powr_minus_divide)
  also have "\<dots> = 1 / 2 ^ nat (- e)"
    using False by (simp add: powr_realpow [symmetric])
  finally show ?thesis
    using False by (simp add: pow2_def)
qed

lemma pow2_pos: "0 < pow2 e"
  by (simp add: pow2_powr)

lemma pow2_add: "pow2 (a + b) = pow2 a * pow2 b"
  by (simp add: pow2_powr powr_add)

lemma binade_bounds:
  assumes "x \<noteq> 0"
  shows "pow2 (binade x) \<le> \<bar>x\<bar> \<and> \<bar>x\<bar> < pow2 (binade x + 1)"
proof (cases "1 \<le> \<bar>x\<bar>")
  case True
  define n where "n = nat \<lfloor>\<bar>x\<bar>\<rfloor>"
  define k where "k = floorlog 2 n"
  have n: "0 < n" "real n \<le> \<bar>x\<bar>" "\<bar>x\<bar> < real n + 1"
    using True unfolding n_def by (simp_all add: floor_less_cancel)
  from floorlog_bounds [of n 2] n(1) have b: "2 ^ (k - 1) \<le> n" "n < 2 ^ k"
    by (simp_all add: k_def)
  have "k \<noteq> 0"
    using n(1) by (simp add: k_def floorlog_eq_zero_iff)
  then have k: "0 < k" by simp
  have e: "binade x = int k - 1"
    using True by (simp add: binade_def n_def k_def)
  have "pow2 (binade x) = 2 ^ (k - 1)"
    using k by (simp add: e pow2_def nat_diff_distrib)
  moreover have "pow2 (binade x + 1) = 2 ^ k"
    by (simp add: e pow2_def)
  moreover have "(2::real) ^ (k - 1) \<le> real n"
    using b(1) by (metis of_nat_le_iff of_nat_numeral of_nat_power)
  moreover have "real n + 1 \<le> 2 ^ k"
  proof -
    from b(2) have "n + 1 \<le> 2 ^ k" by simp
    then have "real (n + 1) \<le> real (2 ^ k)" by (rule of_nat_mono)
    then show ?thesis by simp
  qed
  ultimately show ?thesis
    using n(2,3) by linarith
next
  case False
  define y where "y = 1 / \<bar>x\<bar>"
  define m where "m = nat (\<lceil>y\<rceil> - 1)"
  define k where "k = floorlog 2 m"
  have x: "0 < \<bar>x\<bar>" "\<bar>x\<bar> < 1"
    using assms False by simp_all
  then have y: "1 < y"
    by (simp add: y_def)
  then have "2 \<le> \<lceil>y\<rceil>"
    by (simp add: le_ceiling_iff) 
  then have m: "0 < m" "real m < y" "y \<le> real m + 1"
    unfolding m_def by (simp_all) linarith+
  from floorlog_bounds [of m 2] m(1) have b: "2 ^ (k - 1) \<le> m" "m < 2 ^ k"
    by (simp_all add: k_def)
  have "k \<noteq> 0"
    using m(1) by (simp add: k_def floorlog_eq_zero_iff)
  then have k: "0 < k" by simp
  have e: "binade x = - int k"
    using False by (simp add: binade_def m_def k_def y_def)
  have lo: "(2::real) ^ (k - 1) \<le> real m"
    using b(1) by (metis of_nat_le_iff of_nat_numeral of_nat_power)
  have hi: "real m + 1 \<le> 2 ^ k"
  proof -
    from b(2) have "m + 1 \<le> 2 ^ k" by simp
    then have "real (m + 1) \<le> real (2 ^ k)" by (rule of_nat_mono)
    then show ?thesis by simp
  qed
  have p1: "pow2 (binade x) = 1 / 2 ^ k"
    using k by (simp add: e pow2_def)
  have p2: "pow2 (binade x + 1) = 1 / 2 ^ (k - 1)"
  proof (cases "k = 1")
    case True
    then show ?thesis by (simp add: e pow2_def)
  next
    case False
    with k have "1 < k" by simp
    then have "nat (int k - 1) = k - 1" "\<not> 0 \<le> - int k + 1" by simp_all
    then show ?thesis by (simp add: e pow2_def)
  qed
  have "y \<le> 2 ^ k" using m(3) hi by linarith
  then have "1 / 2 ^ k \<le> 1 / y"
    using y by (intro divide_left_mono) simp_all
  moreover have "2 ^ (k - 1) < y" using m(2) lo by linarith
  then have "1 / y < 1 / 2 ^ (k - 1)"
    using y by (intro divide_strict_left_mono) simp_all
  moreover have "1 / y = \<bar>x\<bar>"
    by (simp add: y_def)
  ultimately show ?thesis
    unfolding p1 p2 by simp
qed

lemma round_half_even_nearest:
  "\<bar>real_of_int (round_half_even t) - t\<bar> \<le> 1 / 2"
  "\<bar>real_of_int (round_half_even t) - t\<bar> \<le> \<bar>real_of_int k - t\<bar>"
proof -
  show half: "\<bar>real_of_int (round_half_even t) - t\<bar> \<le> 1 / 2"
    unfolding round_half_even_def Let_def by (auto simp: abs_if) linarith+
  show "\<bar>real_of_int (round_half_even t) - t\<bar> \<le> \<bar>real_of_int k - t\<bar>"
  proof (cases "k = round_half_even t")
    case True
    then show ?thesis by simp
  next
    case False
    then have "1 \<le> \<bar>k - round_half_even t\<bar>" by simp
    then have "1 \<le> \<bar>real_of_int k - real_of_int (round_half_even t)\<bar>"
      by (metis of_int_1_le_iff of_int_abs of_int_diff)
    with half show ?thesis by linarith
  qed
qed

lemma float64_nearest:
  assumes "x \<noteq> 0"
  shows "\<exists>n. float64 x = real_of_int n * pow2 (binade x - 52)"
    and "\<bar>float64 x - x\<bar> \<le> \<bar>real_of_int k * pow2 (binade x - 52) - x\<bar>"
    and "\<bar>float64 x - x\<bar> \<le> \<bar>x\<bar> / 2 ^ 53"
proof -
  let ?u = "pow2 (binade x - 52)"
  let ?n = "round_half_even (x / ?u)"
  have u: "0 < ?u" by (rule pow2_pos)
  have f: "float64 x = real_of_int ?n * ?u"
    using assms by (simp add: float64_def Let_def)
  then show "\<exists>n. float64 x = real_of_int n * ?u" by blast
  have diff: "real_of_int j * ?u - x = (real_of_int j - x / ?u) * ?u" for j
    using u by (simp add: field_simps)
  have abs: "\<bar>real_of_int j * ?u - x\<bar> = \<bar>real_of_int j - x / ?u\<bar> * ?u" for j
    unfolding diff using u by (simp add: abs_mult)
  show "\<bar>float64 x - x\<bar> \<le> \<bar>real_of_int k * ?u - x\<bar>"
    unfolding f abs using u round_half_even_nearest(2) [of "x / ?u" k]
    by (simp add: mult_right_mono)
  have h: "\<bar>float64 x - x\<bar> \<le> 1 / 2 * ?u"
    unfolding f abs using u round_half_even_nearest(1) [of "x / ?u"]
    by (intro mult_right_mono) simp_all
  have "?u = pow2 (binade x) * pow2 (- 52)"
    using pow2_add [of "binade x" "- 52"] by simp
  also have "pow2 (- 52) = 1 / 2 ^ 52"
    by (simp add: pow2_def)
  finally have "?u = pow2 (binade x) * (1 / 2 ^ 52)" .
  moreover have "pow2 (binade x) * (1 / 2 ^ 52) \<le> \<bar>x\<bar> * (1 / 2 ^ 52)"
    using binade_bounds [OF assms] by (intro mult_right_mono) simp_all
  ultimately have "?u \<le> \<bar>x\<bar> * (1 / 2 ^ 52)" by simp
  with h show "\<bar>float64 x - x\<bar> \<le> \<bar>x\<bar> / 2 ^ 53"
    by simp
qed

lemma float64_literals:
  "float64 (1 / 10) = 3602879701896397 / 2 ^ 55"
  "float64 (2 / 10) = 3602879701896397 / 2 ^ 54"
  "float64 (3 / 10) = 5404319552844595 / 2 ^ 54"
  "float64 (5 / 10) = 1 / 2"
  "float64 (6 / 10) = 5404319552844595 / 2 ^ 53"
  "float64 (7 / 10) = 3152519739159347 / 2 ^ 52"
  "float64 (8 / 10) = 3602879701896397 / 2 ^ 52"
  "float64 (9 / 10) = 8106479329266893 / 2 ^ 53"
  by (simp_all add: float_eval)

section \<open>Properties of the reranker\<close>

lemma py_slice_to_subset: "set (py_slice_to xs k) \<subseteq> set xs"
  by (simp add: py_slice_to_def set_take_subset)

lemma with_scores_fields [simp]:
  "ci_text (with_scores a b s r) = ci_text r"
  "similarity_or_zero (with_scores a b s r) = similarity_or_zero r"
  "cross_encoder_score (with_scores a b s r) = Some s"
  "combined_score (with_scores a b s r) =
     Some (float_add (float_mul a (similarity_or_zero r)) (float_mul b s))"
  "combined (with_scores a b s r) =
     float_add (float_mul a (similarity_or_zero r)) (float_mul b s)"
  by (simp_all add: with_scores_def similarity_or_zero_def combined_def)

lemma model_score_with_scores [simp]:
  "model_score m query (with_scores a b s r) = model_score m query r"
  by (simp add: model_score_def split: rerank_model.splits)

lemma with_scores_twice [simp]:
  "with_scores a b s (with_scores a' b' s' r) = with_scores a b s r"
  by (simp add: with_scores_def similarity_or_zero_def)

lemma score_results_idem:
  "score_results m query (score_results m query rs) = score_results m query rs"
  by (cases m) (simp_all add: score_results_def comp_def)

lemma score_results_Nil_iff [simp]: "score_results m query rs = [] \<longleftrightarrow> rs = []"
  by (cases m) (simp_all add: score_results_def)

lemma rr_initialize_initialized: "rr_is_initialized st \<Longrightarrow> rr_initialize env st = Inr st"
  by (simp add: rr_initialize_def)

lemma rr_initialize_result:
  assumes "rr_initialize env st = Inr st1"
  shows "rr_is_initialized st1"
  using assms
  by (auto simp: rr_initialize_def rbind_eq_Inr split: if_splits sum.splits)

lemma rerank_results_cases:
  assumes "rerank_results env st query rs top_k = Inr (ranked, st')"
  shows "rr_initialize env st = Inr st' \<and>
         (rs = [] \<and> ranked = [] \<or>
          (\<exists>m. rr_model st' = Some m \<and>
             ranked = py_slice_to (sorted_by_combined_desc (score_results m query rs))
                        (int_or top_k TOP_K_RERANK)))"
  using assms
  by (auto simp: rerank_results_def rbind_eq_Inr the_attr_def Let_def
      split: if_splits option.splits)

lemma scored_cross:
  assumes "r \<in> set (score_results (CrossEncoder score) query rs)"
  shows "cross_encoder_score r = Some (score query (ci_text r)) \<and>
         combined_score r =
           Some (float_add (float_mul (float64 (3 / 10)) (similarity_or_zero r))
                   (float_mul (float64 (7 / 10)) (score query (ci_text r))))"
  using assms by (auto simp: score_results_def model_score_def)

lemma scored_bi:
  assumes "r \<in> set (score_results (BiEncoder encode) query rs)"
  shows "cross_encoder_score r = Some (dot (encode query) (encode (ci_text r))) \<and>
         combined_score r =
           Some (float_add (float_mul (float64 (5 / 10)) (similarity_or_zero r))
                   (float_mul (float64 (5 / 10)) (dot (encode query) (encode (ci_text r)))))"
  using assms by (auto simp: score_results_def model_score_def)

lemma ranked_subset:
  assumes "rerank_results env st query rs top_k = Inr (ranked, st')" "rr_model st' = Some m"
  shows "set ranked \<subseteq> set (score_results m query rs)"
proof -
  from rerank_results_cases [OF assms(1)] assms(2)
  have "ranked = [] \<or> ranked = py_slice_to (sorted_by_combined_desc (score_results m query rs))
                        (int_or top_k TOP_K_RERANK)"
    by auto
  then show ?thesis
    using py_slice_to_subset [of "sorted_by_combined_desc (score_results m query rs)"]
    by (auto simp: sorted_by_combined_desc_def)
qed

lemma example_combined:
  "float_add (float_mul (float64 (3 / 10)) (float64 (8 / 10)))
     (float_mul (float64 (7 / 10)) (float64 (6 / 10))) =
   2972375754064527 / 2 ^ 52"
  by (simp add: float_eval)

lemma candidate_similarity: "similarity_or_zero (candidate doc t s) = s"
  by (simp add: candidate_def similarity_or_zero_def)

lemma example_candidate:
  "combined_score
     (with_scores (float64 (3 / 10)) (float64 (7 / 10)) (float64 (6 / 10))
        (candidate ''d1'' ''alpha'' (float64 (8 / 10)))) =
     Some (2972375754064527 / 2 ^ 52)"
  unfolding with_scores_fields candidate_similarity example_combined ..

lemma example_neighbours:
  "float64 (66 / 100) = 5944751508129055 / 9007199254740992"
  "2972375754064527 / 2 ^ 52 = float64 (66 / 100) - 1 / 2 ^ 53"
  by (simp_all add: float_eval)

text \<open>
  C4, amended. Every candidate that \<open>rerank_results\<close> returns carries the score of the
  model for its pair of query and text as \<open>cross_encoder_score\<close>, and as \<open>combined_score\<close>
  the float sum \<open>0.3 * similarity_score + 0.7 * cross_encoder_score\<close> when the model is a
  cross-encoder, and \<open>0.5 * similarity_score + 0.5 * cross_encoder_score\<close> when it is the
  bi-encoder: the weights are the floats of these literals, each product is rounded to a
  float, and so is the sum of the two (an absent similarity score counts as 0.0). With
  the floats 0.8 as similarity and 0.6 as cross-encoder score the combined score is the
  float \<open>2972375754064527 / 2 ^ 52\<close>, which Python prints as 0.6599999999999999: it is
  the float next below the float 0.66, less than \<open>10 ^ -16\<close> away from the real number
  0.66.
\<close>

theorem rerank_combined_score_weights:
  assumes "rerank_results env st query search_results top_k = Inr (ranked, st')"
  shows "(\<forall>score. rr_model st' = Some (CrossEncoder score) \<longrightarrow>
            (\<forall>r \<in> set ranked.
               cross_encoder_score r = Some (score query (ci_text r)) \<and>
               combined_score r =
                 Some (float_add (float_mul (float64 (3 / 10)) (similarity_or_zero r))
                         (float_mul (float64 (7 / 10)) (score query (ci_text r)))))) \<and>
         (\<forall>encode. rr_model st' = Some (BiEncoder encode) \<longrightarrow>
            (\<forall>r \<in> set ranked.
               cross_encoder_score r = Some (dot (encode query) (encode (ci_text r))) \<and>
               combined_score r =
                 Some (float_add (float_mul (float64 (5 / 10)) (similarity_or_zero r))
                         (float_mul (float64 (5 / 10))
                            (dot (encode query) (encode (ci_text r))))))) \<and>
         combined_score
           (with_scores (float64 (3 / 10)) (float64 (7 / 10)) (float64 (6 / 10))
              (r\<lparr>similarity_score := Some (float64 (8 / 10))\<rparr>)) =
           Some (2972375754064527 / 2 ^ 52) \<and>
         (2972375754064527 / 2 ^ 52 :: real) = float64 (66 / 100) - 1 / 2 ^ 53 \<and>
         \<bar>2972375754064527 / 2 ^ 52 - 66 / 100 :: real\<bar> < 1 / 10 ^ 16"
proof -
  have sim: "similarity_or_zero (r\<lparr>similarity_score := Some x\<rparr>) = x" for x
    by (simp add: similarity_or_zero_def)
  have "combined_score
           (with_scores (float64 (3 / 10)) (float64 (7 / 10)) (float64 (6 / 10))
              (r\<lparr>similarity_score := Some (float64 (8 / 10))\<rparr>)) =
           Some (2972375754064527 / 2 ^ 52)"
    unfolding with_scores_fields sim example_combined ..
  moreover have "(2972375754064527 / 2 ^ 52 :: real) = float64 (66 / 100) - 1 / 2 ^ 53"
    by (rule example_neighbours(2))
  moreover have "\<bar>2972375754064527 / 2 ^ 52 - 66 / 100 :: real\<bar> < 1 / 10 ^ 16"
    by simp
  ultimately show ?thesis
    using ranked_subset [OF assms] scored_cross scored_bi by blast
qed

lemma demo_rerank:
  "rerank_results demo_rr_env new_reranking_service ''q''
     [candidate ''d1'' ''alpha'' (float64 (8 / 10))] None =
   Inr ([with_scores (float64 (3 / 10)) (float64 (7 / 10)) (float64 (6 / 10))
           (candidate ''d1'' ''alpha'' (float64 (8 / 10)))],
        demo_cross_encoder)"
  by (simp add: rerank_results_def rr_initialize_def demo_rr_env_def new_reranking_service_def
      demo_cross_encoder_def the_attr_def int_or_def TOP_K_RERANK_def score_results_def
      model_score_def sorted_by_combined_desc_def py_slice_to_def norm_index_def candidate_def
      chunk_entry_def demo_score_def)

theorem rerank_combined_score_weights_witness:
  "rerank_results demo_rr_env new_reranking_service ''q''
     [candidate ''d1'' ''alpha'' (float64 (8 / 10))] None =
   Inr ([with_scores (float64 (3 / 10)) (float64 (7 / 10)) (float64 (6 / 10))
           (candidate ''d1'' ''alpha'' (float64 (8 / 10)))],
        demo_cross_encoder) \<and>
   combined_score
     (with_scores (float64 (3 / 10)) (float64 (7 / 10)) (float64 (6 / 10))
        (candidate ''d1'' ''alpha'' (float64 (8 / 10)))) =
     Some (2972375754064527 / 2 ^ 52)"
proof -
  note w = rerank_combined_score_weights [OF demo_rerank,
      of "candidate ''d1'' ''alpha'' (float64 (8 / 10))"]
  have same: "(candidate ''d1'' ''alpha'' (float64 (8 / 10)))
                \<lparr>similarity_score := Some (float64 (8 / 10))\<rparr> =
              candidate ''d1'' ''alpha'' (float64 (8 / 10))"
    unfolding candidate_def by simp
  from w [THEN conjunct2, THEN conjunct2, THEN conjunct1]
  have "combined_score
          (with_scores (float64 (3 / 10)) (float64 (7 / 10)) (float64 (6 / 10))
             (candidate ''d1'' ''alpha'' (float64 (8 / 10)))) =
          Some (2972375754064527 / 2 ^ 52)"
    unfolding same .
  with demo_rerank show ?thesis by (intro conjI)
qed

text \<open>
  C4 as stated fails on its own example. The reranker in cross-encoder mode, given one
  candidate of similarity score 0.8 that the model scores with 0.6, returns it with the
  combined score 0.6599999999999999; this is not 0.66, neither the real number nor the
  float that the literal \<open>0.66\<close> denotes, which lies above it.
\<close>

theorem rerank_example_is_not_066:
  "map_sum id (map combined_score \<circ> fst)
     (rerank_results demo_rr_env new_reranking_service ''q''
        [candidate ''d1'' ''alpha'' (float64 (8 / 10))] None) =
     Inr [Some (2972375754064527 / 2 ^ 52)] \<and>
   (2972375754064527 / 2 ^ 52 :: real) < 66 / 100 \<and>
   (66 / 100 :: real) < float64 (66 / 100)"
proof -
  have "map_sum id (map combined_score \<circ> fst)
     (rerank_results demo_rr_env new_reranking_service ''q''
        [candidate ''d1'' ''alpha'' (float64 (8 / 10))] None) =
     Inr [Some (2972375754064527 / 2 ^ 52)]"
    unfolding demo_rerank
    by (simp only: map_sum.simps comp_apply fst_conv list.map example_candidate id_apply)
  moreover have "(66 / 100 :: real) < float64 (66 / 100)"
    unfolding example_neighbours(1) by simp
  ultimately show ?thesis by simp
qed

lemma sorted_by_combined_desc_sorted:
  "sorted_wrt (\<lambda>a b. combined b \<le> combined a) (sorted_by_combined_desc xs)"
proof -
  have "sorted (map (\<lambda>r. - combined r) (sort_key (\<lambda>r. - combined r) xs))"
    by (rule sorted_sort_key)
  then show ?thesis
    by (simp add: sorted_by_combined_desc_def sorted_map)
qed

lemma sorted_by_combined_desc_stable:
  "filter (\<lambda>r. combined r = c) (sorted_by_combined_desc xs) = filter (\<lambda>r. combined r = c) xs"
proof -
  have "filter (\<lambda>r. - combined r = - c) (sort_key (\<lambda>r. - combined r) xs) =
        filter (\<lambda>r. - combined r = - c) xs"
    by (rule sort_key_stable)
  then show ?thesis
    by (simp add: sorted_by_combined_desc_def)
qed

lemma rerank_results_ready:
  assumes "rr_initialize env st = Inr st1" "rr_model st1 = Some m"
  shows "rerank_results env st query rs top_k =
           Inr (py_slice_to (sorted_by_combined_desc (score_results m query rs))
                  (int_or top_k TOP_K_RERANK), st1)"
proof (cases "rs = []")
  case True
  then show ?thesis
    using assms
    by (simp add: rerank_results_def sorted_by_combined_desc_def py_slice_to_def
        score_results_def split: rerank_model.splits)
next
  case False
  then show ?thesis
    using assms by (simp add: rerank_results_def the_attr_def Let_def)
qed

text \<open>
  C6, amended. On a reranker that is or can be initialised, for every query, every
  candidate list and every positive \<open>top_k\<close>: the result is the first \<open>top_k\<close> elements
  of the scored candidates sorted by descending combined score; that sort keeps the
  input order among candidates of equal combined score and keeps every candidate;
  running the reranker again on the candidates it has scored gives the same result; an
  empty candidate list gives the empty list; and an absent or zero \<open>top_k\<close> cuts to the
  first 5 (\<open>TOP_K_RERANK\<close>) instead.
\<close>

theorem rerank_stable_descending_top_k:
  assumes "rr_initialize env st = Inr st1" and "rr_model st1 = Some m" and "0 < k"
  shows "rerank_results env st query rs (Some k) =
           Inr (take (nat k) (sorted_by_combined_desc (score_results m query rs)), st1) \<and>
         sorted_wrt (\<lambda>a b. combined b \<le> combined a)
           (sorted_by_combined_desc (score_results m query rs)) \<and>
         (\<forall>c. filter (\<lambda>r. combined r = c) (sorted_by_combined_desc (score_results m query rs)) =
               filter (\<lambda>r. combined r = c) (score_results m query rs)) \<and>
         length (sorted_by_combined_desc (score_results m query rs)) = length rs \<and>
         rerank_results env st1 query (score_results m query rs) (Some k) =
           rerank_results env st query rs (Some k) \<and>
         rerank_results env st query [] top_k = Inr ([], st1) \<and>
         rerank_results env st query rs None =
           Inr (take 5 (sorted_by_combined_desc (score_results m query rs)), st1) \<and>
         rerank_results env st query rs (Some 0) =
           Inr (take 5 (sorted_by_combined_desc (score_results m query rs)), st1)"
proof -
  have again: "rr_initialize env st1 = Inr st1"
    using assms(1) by (simp add: rr_initialize_initialized rr_initialize_result)
  have cut: "py_slice_to xs (int_or (Some k) TOP_K_RERANK) = take (nat k) xs"
    for xs :: "chunk_info list"
    using assms(3) by (simp add: int_or_def py_slice_to_take)
  have default: "py_slice_to xs (int_or None TOP_K_RERANK) = take 5 xs"
    "py_slice_to xs (int_or (Some 0) TOP_K_RERANK) = take 5 xs"
    for xs :: "chunk_info list"
    by (simp_all add: int_or_def TOP_K_RERANK_def py_slice_to_take)
  have first: "rerank_results env st query rs (Some k) =
           Inr (take (nat k) (sorted_by_combined_desc (score_results m query rs)), st1)"
    by (simp add: rerank_results_ready [OF assms(1,2)] cut)
  have rerun: "rerank_results env st1 query (score_results m query rs) (Some k) =
           Inr (take (nat k) (sorted_by_combined_desc (score_results m query rs)), st1)"
    by (simp add: rerank_results_ready [OF again assms(2)] cut score_results_idem)
  have len: "length (sorted_by_combined_desc (score_results m query rs)) = length rs"
    by (cases m) (simp_all add: sorted_by_combined_desc_def score_results_def)
  have empty: "rerank_results env st query [] top_k = Inr ([], st1)"
    using assms(1) by (simp add: rerank_results_def)
  show ?thesis
    using first rerun len empty sorted_by_combined_desc_sorted sorted_by_combined_desc_stable
      rerank_results_ready [OF assms(1,2), of query rs None]
      rerank_results_ready [OF assms(1,2), of query rs "Some 0"]
    by (simp add: default)
qed

text \<open>
  C6 as stated fails for \<open>top_k = 0\<close>: the result is not cut to zero candidates, the one
  candidate given is returned.
\<close>

theorem rerank_top_k_zero_not_truncated:
  "rerank_results demo_rr_env demo_cross_encoder ''q''
     [candidate ''d1'' ''alpha'' (float64 (8 / 10))] (Some 0) =
   Inr ([with_scores (float64 (3 / 10)) (float64 (7 / 10)) (float64 (6 / 10))
           (candidate ''d1'' ''alpha'' (float64 (8 / 10)))],
        demo_cross_encoder)"
  by (simp add: rerank_results_def rr_initialize_def demo_cross_encoder_def the_attr_def
      int_or_def TOP_K_RERANK_def score_results_def model_score_def sorted_by_combined_desc_def
      py_slice_to_def norm_index_def candidate_def chunk_entry_def demo_score_def)

lemma demo_scored:
  "score_results (CrossEncoder demo_score) ''q'' tie_candidates =
   [with_scores (float64 (3 / 10)) (float64 (7 / 10)) (float64 (2 / 10))
      (candidate ''d1'' ''beta'' (float64 (3 / 10))),
    with_scores (float64 (3 / 10)) (float64 (7 / 10)) (float64 (6 / 10))
      (candidate ''d2'' ''alpha'' (float64 (2 / 10))),
    with_scores (float64 (3 / 10)) (float64 (7 / 10)) (float64 (2 / 10))
      (candidate ''d3'' ''beta'' (float64 (3 / 10))),
    with_scores (float64 (3 / 10)) (float64 (7 / 10)) (float64 (2 / 10))
      (candidate ''d4'' ''beta'' (float64 (9 / 10)))]"
  by (simp add: score_results_def model_score_def tie_candidates_def candidate_def
      chunk_entry_def demo_score_def)

lemma demo_sorted:
  "sorted_by_combined_desc
     [with_scores (float64 (3 / 10)) (float64 (7 / 10)) (float64 (2 / 10))
        (candidate ''d1'' ''beta'' (float64 (3 / 10))),
      with_scores (float64 (3 / 10)) (float64 (7 / 10)) (float64 (6 / 10))
        (candidate ''d2'' ''alpha'' (float64 (2 / 10))),
      with_scores (float64 (3 / 10)) (float64 (7 / 10)) (float64 (2 / 10))
        (candidate ''d3'' ''beta'' (float64 (3 / 10))),
      with_scores (float64 (3 / 10)) (float64 (7 / 10)) (float64 (2 / 10))
        (candidate ''d4'' ''beta'' (float64 (9 / 10)))] =
     [with_scores (float64 (3 / 10)) (float64 (7 / 10)) (float64 (6 / 10))
        (candidate ''d2'' ''alpha'' (float64 (2 / 10))),
      with_scores (float64 (3 / 10)) (float64 (7 / 10)) (float64 (2 / 10))
        (candidate ''d4'' ''beta'' (float64 (9 / 10))),
      with_scores (float64 (3 / 10)) (float64 (7 / 10)) (float64 (2 / 10))
        (candidate ''d1'' ''beta'' (float64 (3 / 10))),
      with_scores (float64 (3 / 10)) (float64 (7 / 10)) (float64 (2 / 10))
        (candidate ''d3'' ''beta'' (float64 (3 / 10)))]"
  by (simp add: sorted_by_combined_desc_def candidate_def similarity_or_zero_def float_eval)

theorem rerank_stable_descending_top_k_witness:
  "rr_initialize demo_rr_env demo_cross_encoder = Inr demo_cross_encoder \<and>
   (0::int) < 3 \<and>
   rerank_results demo_rr_env demo_cross_encoder ''q'' tie_candidates (Some 3) =
     Inr ([with_scores (float64 (3 / 10)) (float64 (7 / 10)) (float64 (6 / 10))
             (candidate ''d2'' ''alpha'' (float64 (2 / 10))),
           with_scores (float64 (3 / 10)) (float64 (7 / 10)) (float64 (2 / 10))
             (candidate ''d4'' ''beta'' (float64 (9 / 10))),
           with_scores (float64 (3 / 10)) (float64 (7 / 10)) (float64 (2 / 10))
             (candidate ''d1'' ''beta'' (float64 (3 / 10)))],
          demo_cross_encoder)"
proof -
  have i: "rr_initialize demo_rr_env demo_cross_encoder = Inr demo_cross_encoder"
    by (simp add: rr_initialize_def demo_cross_encoder_def)
  have m: "rr_model demo_cross_encoder = Some (CrossEncoder demo_score)"
    by (simp add: demo_cross_encoder_def)
  have k: "(0::int) < 3" by simp
  note t = rerank_stable_descending_top_k [OF i m k, of "''q''" tie_candidates, THEN conjunct1]
  have cut: "take (nat 3) [a, b, c, d] = [a, b, c]" for a b c d :: chunk_info
    by (simp add: eval_nat_numeral)
  from t have r: "rerank_results demo_rr_env demo_cross_encoder ''q'' tie_candidates (Some 3) =
     Inr ([with_scores (float64 (3 / 10)) (float64 (7 / 10)) (float64 (6 / 10))
             (candidate ''d2'' ''alpha'' (float64 (2 / 10))),
           with_scores (float64 (3 / 10)) (float64 (7 / 10)) (float64 (2 / 10))
             (candidate ''d4'' ''beta'' (float64 (9 / 10))),
           with_scores (float64 (3 / 10)) (float64 (7 / 10)) (float64 (2 / 10))
             (candidate ''d1'' ''beta'' (float64 (3 / 10)))],
          demo_cross_encoder)"
    unfolding demo_scored demo_sorted cut .
  from i k r show ?thesis by (intro conjI)
qed

section \<open>Properties of the query orchestrator\<close>

lemma dict_get_dense:
  assumes "dense (map fst dc)" "0 \<le> idx" "idx < int (length dc)"
  shows "\<exists>v. dict_get dc idx = Inr v"
proof -
  have "set (map fst dc) = set (map int [0..<length dc])"
    using assms(1) by (simp add: dense_def)
  then have "fst ` set dc = int ` {0..<length dc}" by simp
  moreover have "idx = int (nat idx)" "nat idx < length dc"
    using assms(2,3) by simp_all
  ultimately have "idx \<in> fst ` set dc"
    by (metis atLeastLessThan_iff imageI le0)
  then have "map_of dc idx \<noteq> None"
    by (simp add: map_of_eq_None_iff)
  then show ?thesis
    by (auto simp: dict_get_def)
qed

lemma collect_results_dense:
  assumes "dense (map fst dc)"
  shows "\<exists>rs. collect_results dc hits = Inr rs"
proof (induction hits)
  case Nil
  then show ?case by simp
next
  case (Cons hit hits)
  obtain score idx where hit: "hit = (score, idx)" by (cases hit)
  from Cons obtain rs where rs: "collect_results dc hits = Inr rs" by blast
  show ?case
  proof (cases "0 \<le> idx \<and> idx < int (length dc)")
    case True
    then obtain v where "dict_get dc idx = Inr v"
      using dict_get_dense [OF assms] by blast
    then show ?thesis using True rs hit by simp
  next
    case False
    then have "collect_results dc (hit # hits) = collect_results dc hits"
      unfolding hit by (simp only: collect_results.simps if_False)
    then show ?thesis using rs by simp
  qed
qed

lemma search_ready:
  assumes "ready st" "dense (slots st)" "0 < int_or top_k MAX_RETRIEVAL_RESULTS"
  shows "\<exists>rs. search env st query top_k = Inr (rs, st)"
proof -
  from assms(1) obtain encode vectors where
    st: "is_initialized st" "model st = Some encode" "index st = Some vectors"
    by (auto simp: ready_def)
  from assms(3) obtain hits where
    "flat_ip_search vectors (encode query) (int_or top_k MAX_RETRIEVAL_RESULTS) = Inr hits"
    by (auto simp: flat_ip_search_def Let_def)
  moreover obtain rs where "collect_results (document_chunks st) hits = Inr rs"
    using collect_results_dense [OF assms(2) [unfolded slots_def]] by blast
  ultimately show ?thesis
    using st by (simp add: search_def initialize_initialized the_attr_def Let_def)
qed

lemma retrieve_ready:
  assumes "ready st" "dense (slots st)" "usable_max_results request"
  shows "\<exists>rs. retrieve env st request = Inr (rs, st)"
proof (cases "scoped request")
  case True
  then obtain doc where doc: "req_document_id request = Some doc" "doc \<noteq> []"
    by (auto simp: scoped_def split: option.splits)
  with True assms(3) obtain k where k: "max_results request = Some k" "0 \<le> k"
    by (auto simp: usable_max_results_def split: option.splits)
  then have "0 < int_or (Some (k * 2)) MAX_RETRIEVAL_RESULTS"
    by (simp add: int_or_def MAX_RETRIEVAL_RESULTS_def)
  from search_ready [OF assms(1,2) this, of env "req_query request"]
  obtain rs where "search env st (req_query request) (Some (k * 2)) = Inr (rs, st)" by blast
  then show ?thesis
    using doc k assms(1)
    by (simp add: retrieve_def search_by_document_def initialize_initialized ready_def times2_def)
next
  case False
  have "0 < int_or (max_results request) MAX_RETRIEVAL_RESULTS"
    using assms(3)
    by (auto simp: usable_max_results_def int_or_def MAX_RETRIEVAL_RESULTS_def
        split: option.splits)
  from search_ready [OF assms(1,2) this, of env "req_query request"]
  obtain rs where "search env st (req_query request) (max_results request) = Inr (rs, st)"
    by blast
  then show ?thesis
    using False by (auto simp: retrieve_def scoped_def split: option.splits)
qed

lemma search_by_document_after_initialize:
  assumes "initialize env st = Inr st1"
  shows "search_by_document env st1 query doc top_k = search_by_document env st query doc top_k"
  using assms
  by (simp add: search_by_document_def initialize_again search_after_initialize)

lemma retrieve_after_initialize:
  assumes "initialize env st = Inr st1"
  shows "retrieve env st1 request = retrieve env st request"
  using assms
  by (simp add: retrieve_def search_after_initialize search_by_document_after_initialize
      split: option.splits)

lemma clause_matches_scored:
  assumes "\<forall>c \<in> set cs. combined_score c \<noteq> None"
  shows "\<exists>ms. clause_matches cs = Inr ms \<and> length ms = length cs"
  using assms
proof (induction cs)
  case Nil
  then show ?case by simp
next
  case (Cons c cs)
  then obtain ms where "clause_matches cs = Inr ms" "length ms = length cs" by auto
  moreover from Cons.prems obtain s where "combined_score c = Some s" by auto
  ultimately show ?case by (simp add: the_key_def)
qed

lemma score_results_combined:
  assumes "c \<in> set (score_results m query rs)"
  shows "combined_score c \<noteq> None"
  using assms by (cases m) (auto simp: score_results_def)

lemma llm_initialize_result:
  assumes "llm_initialize env st = Inr st1"
  shows "llm_initialize env st1 = Inr st1"
  using assms by (auto simp: llm_initialize_def rbind_eq_Inr split: if_splits)

lemma rule_based_fields:
  "\<exists>a d c r s k.
     ans_answer (rule_based_answer_generation query chunks domain) = Some a \<and> a \<noteq> [] \<and>
     ans_decision (rule_based_answer_generation query chunks domain) = Some d \<and>
     ans_confidence (rule_based_answer_generation query chunks domain) = Some c \<and>
     c \<le> float64 (7 / 10) \<and>
     ans_reasoning (rule_based_answer_generation query chunks domain) = Some r \<and> r \<noteq> [] \<and>
     ans_supporting_evidence (rule_based_answer_generation query chunks domain) = Some s \<and>
     ans_key_factors (rule_based_answer_generation query chunks domain) = Some k \<and> k \<noteq> [] \<and>
     ans_token_usage (rule_based_answer_generation query chunks domain) = Some 0"
proof (cases chunks)
  case Nil
  have "float64 (1 / 10) \<le> float64 (7 / 10)"
    by (simp add: float_eval)
  with Nil show ?thesis
    by (simp add: rule_based_answer_generation_def)
next
  case (Cons best others)
  then show ?thesis
    by (simp add: rule_based_answer_generation_def Let_def)
qed


lemma demo_hits_empty: "flat_ip_search [] q 5 = Inr (replicate 5 (no_score, - 1))"
  by (simp add: flat_ip_search_def Let_def)

lemma collect_results_empty: "collect_results [] (replicate n (s, - 1)) = Inr []"
  by (induction n) simp_all

lemma demo_process_query:
  "map_sum id fst (process_query fallback_env new_services demo_request ''q-1'') =
     Inr demo_response"
  by (simp add: process_query_def fallback_env_def new_services_def demo_request_def
      demo_response_def extract_structured_query_def generate_answer_def llm_initialize_def
      new_llm_service_def retrieve_def search_def initialize_def load_index_def
      load_index_try_def demo_env_def new_embedding_service_def the_attr_def int_or_def
      demo_hits_empty collect_results_empty rerank_results_def rr_initialize_def demo_rr_env_def
      new_reranking_service_def rule_based_answer_generation_def the_key_def Let_def)



end
